theory Spec2Isabelle
  imports Main "HOL-Library.Word" "HOL-Library.Multiset"
begin

section \<open>Data model of heapfile.C\<close>

text \<open>
  Status codes. The first eight are the ones heapfile.C names itself; the remaining ones
  are codes that only the collaborators (file layer, buffer pool, page) produce and that
  heapfile.C passes on unchanged.
\<close>

datatype Status =
    OK
  | FILEEXISTS
  | BADSCANPARM
  | INVALIDRECLEN
  | NOSPACE
  | NORECORDS
  | ENDOFPAGE
  | NOMORERECS
  | INVALIDSLOT
  | PAGENOTPINNED
  | BUFFEREXCEEDED
  | BADPAGENO
  | UNIXERR

type_synonym byte = "8 word"

text \<open>\<^verbatim>\<open>struct RID { int pageNo; int slotNo; }\<close> and the constant \<^verbatim>\<open>NULLRID = {-1,-1}\<close>.\<close>

record RID =
  pageNo :: int
  slotNo :: int

definition NULLRID :: RID where
  "NULLRID = \<lparr>pageNo = -1, slotNo = -1\<rparr>"

text \<open>\<^verbatim>\<open>struct Record { void* data; int length; }\<close>: the bytes \<open>data\<close> points to, and the
  declared length.\<close>

record Record =
  data :: "byte list"
  length' :: int

text \<open>The header page of a heap file (\<^verbatim>\<open>FileHdrPage\<close>).\<close>

record FileHdrPage =
  fileName :: string
  firstPage :: int
  lastPage :: int
  pageCnt :: int
  recCnt :: int

text \<open>
  The enumerations \<^verbatim>\<open>Datatype\<close> and \<^verbatim>\<open>Operator\<close>. A C++ enum variable can hold a value
  that is none of its enumerators; \<open>BadDatatype\<close> and \<open>BadOperator\<close> stand for those
  values, so that the validity tests of \<^verbatim>\<open>startScan\<close> are tests of the model too.
\<close>

datatype Datatype = STRING | INTEGER | FLOAT | BadDatatype nat

datatype Operator = LT | LTE | EQ | GTE | GT | NE | BadOperator nat

text \<open>
  How the local \<^verbatim>\<open>float diff\<close> of \<^verbatim>\<open>matchRec\<close> compares with \<^verbatim>\<open>0.0\<close>. The conversion of
  an \<^verbatim>\<open>int\<close> to \<^verbatim>\<open>float\<close> rounds, but it keeps the sign and maps only zero to zero, so
  for an integer value the class is the sign of the integer.
\<close>

datatype fsign = FNeg | FZero | FPos | FNaN

definition float_of_int :: "int \<Rightarrow> fsign" where
  "float_of_int i = (if i < 0 then FNeg else if i = 0 then FZero else FPos)"

text \<open>\<^verbatim>\<open>int\<close> is 32 bits wide; signed arithmetic that leaves the range wraps around.\<close>

definition wrap32 :: "int \<Rightarrow> int" where
  "wrap32 i = sint (word_of_int i :: 32 word)"

definition sizeof_int :: int where
  "sizeof_int = 4"

definition sizeof_float :: int where
  "sizeof_float = 4"

section \<open>The collaborators: file layer, buffer pool, page\<close>

text \<open>
  heapfile.C calls the file layer (\<^verbatim>\<open>db\<close>), the buffer pool (\<^verbatim>\<open>bufMgr\<close>) and the methods of
  \<^verbatim>\<open>Page\<close>; their sources are not part of heapfile.C. They are parameters of the model:
  a record of functions over a state \<open>'w\<close> of the outside world, with \<open>'f\<close> the values
  of \<^verbatim>\<open>File*\<close> and \<open>'p\<close> the values of \<^verbatim>\<open>Page*\<close>. An out parameter is a component of the
  result; its value matters only where the call returns \<open>OK\<close>. The constants of the
  missing headers are fields as well. So is \<open>float_diff\<close>, how \<^verbatim>\<open>fattr - ffltr\<close> in
  \<^verbatim>\<open>matchRec\<close> compares with zero, given the bytes copied into the two \<^verbatim>\<open>float\<close>s: the
  theory fixes no floating-point arithmetic, and what is proved holds for every one.
\<close>

record ('w, 'f, 'p) Env =
  db_openFile :: "string \<Rightarrow> 'w \<Rightarrow> Status \<times> 'f \<times> 'w"
  db_createFile :: "string \<Rightarrow> 'w \<Rightarrow> Status \<times> 'w"
  db_closeFile :: "'f \<Rightarrow> 'w \<Rightarrow> Status \<times> 'w"
  db_destroyFile :: "string \<Rightarrow> 'w \<Rightarrow> Status \<times> 'w"
  file_getFirstPage :: "'f \<Rightarrow> 'w \<Rightarrow> Status \<times> int"
  buf_allocPage :: "'f \<Rightarrow> 'w \<Rightarrow> Status \<times> int \<times> 'p \<times> 'w"
  buf_readPage :: "'f \<Rightarrow> int \<Rightarrow> 'w \<Rightarrow> Status \<times> 'p \<times> 'w"
  buf_unPinPage :: "'f \<Rightarrow> int \<Rightarrow> bool \<Rightarrow> 'w \<Rightarrow> Status \<times> 'w"
  pg_init :: "'p \<Rightarrow> int \<Rightarrow> 'w \<Rightarrow> 'w"
  pg_getRecord :: "'p \<Rightarrow> RID \<Rightarrow> 'w \<Rightarrow> Status \<times> Record"
  pg_insertRecord :: "'p \<Rightarrow> Record \<Rightarrow> 'w \<Rightarrow> Status \<times> RID \<times> 'w"
  pg_deleteRecord :: "'p \<Rightarrow> RID \<Rightarrow> 'w \<Rightarrow> Status \<times> 'w"
  pg_firstRecord :: "'p \<Rightarrow> 'w \<Rightarrow> Status \<times> RID"
  pg_nextRecord :: "'p \<Rightarrow> RID \<Rightarrow> 'w \<Rightarrow> Status \<times> RID"
  pg_getNextPage :: "'p \<Rightarrow> 'w \<Rightarrow> Status \<times> int"
  pg_setNextPage :: "'p \<Rightarrow> int \<Rightarrow> 'w \<Rightarrow> Status \<times> 'w"
  float_diff :: "byte list \<Rightarrow> byte list \<Rightarrow> fsign"
  MAXNAMESIZE :: nat
  PAGESIZE :: int
  DPFIXED :: int

text \<open>
  Every call of a collaborator is recorded, in order, the way a mock buffer pool would
  observe it. A page method is recorded with the handle it was called through.
\<close>

datatype PageCall =
    PInit int
  | PGetRecord RID
  | PInsertRecord Record
  | PDeleteRecord RID
  | PFirstRecord
  | PNextRecord RID
  | PGetNextPage
  | PSetNextPage int

datatype ('f, 'p) Event =
    OpenFile string Status
  | CreateFile string Status
  | CloseFile 'f Status
  | DestroyFile string Status
  | GetFirstPage 'f Status
  | AllocPage 'f Status int 'p
  | ReadPage 'f int Status 'p
  | UnPinPage 'f int bool Status
  | PageCall 'p PageCall Status

text \<open>
  The state outside the objects of heapfile.C: the collaborators' world, the memory of the
  header frames (heapfile.C reads and writes a \<^verbatim>\<open>FileHdrPage\<close> through a pointer into the
  buffer pool; the collaborators never write the fields of a header), and the calls made
  so far.
\<close>

record ('w, 'f, 'p) Sys =
  world :: 'w
  hdrs :: "'p \<Rightarrow> FileHdrPage"
  trace :: "('f, 'p) Event list"

definition emit :: "('f, 'p) Event \<Rightarrow> 'w \<Rightarrow> ('w, 'f, 'p) Sys \<Rightarrow> ('w, 'f, 'p) Sys" where
  "emit e w sy = sy\<lparr>world := w, trace := trace sy @ [e]\<rparr>"

definition openFile ::
  "('w, 'f, 'p) Env \<Rightarrow> string \<Rightarrow> ('w, 'f, 'p) Sys \<Rightarrow> Status \<times> 'f \<times> ('w, 'f, 'p) Sys" where
  "openFile env name sy =
     (case db_openFile env name (world sy) of
        (st, f, w) \<Rightarrow> (st, f, emit (OpenFile name st) w sy))"

definition createFile ::
  "('w, 'f, 'p) Env \<Rightarrow> string \<Rightarrow> ('w, 'f, 'p) Sys \<Rightarrow> Status \<times> ('w, 'f, 'p) Sys" where
  "createFile env name sy =
     (case db_createFile env name (world sy) of
        (st, w) \<Rightarrow> (st, emit (CreateFile name st) w sy))"

definition closeFile ::
  "('w, 'f, 'p) Env \<Rightarrow> 'f \<Rightarrow> ('w, 'f, 'p) Sys \<Rightarrow> Status \<times> ('w, 'f, 'p) Sys" where
  "closeFile env f sy =
     (case db_closeFile env f (world sy) of
        (st, w) \<Rightarrow> (st, emit (CloseFile f st) w sy))"

definition destroyFile ::
  "('w, 'f, 'p) Env \<Rightarrow> string \<Rightarrow> ('w, 'f, 'p) Sys \<Rightarrow> Status \<times> ('w, 'f, 'p) Sys" where
  "destroyFile env name sy =
     (case db_destroyFile env name (world sy) of
        (st, w) \<Rightarrow> (st, emit (DestroyFile name st) w sy))"

definition getFirstPage ::
  "('w, 'f, 'p) Env \<Rightarrow> 'f \<Rightarrow> ('w, 'f, 'p) Sys \<Rightarrow> Status \<times> int \<times> ('w, 'f, 'p) Sys" where
  "getFirstPage env f sy =
     (case file_getFirstPage env f (world sy) of
        (st, n) \<Rightarrow> (st, n, emit (GetFirstPage f st) (world sy) sy))"

definition allocPage ::
  "('w, 'f, 'p) Env \<Rightarrow> 'f \<Rightarrow> ('w, 'f, 'p) Sys \<Rightarrow> Status \<times> int \<times> 'p \<times> ('w, 'f, 'p) Sys" where
  "allocPage env f sy =
     (case buf_allocPage env f (world sy) of
        (st, n, p, w) \<Rightarrow> (st, n, p, emit (AllocPage f st n p) w sy))"

definition readPage ::
  "('w, 'f, 'p) Env \<Rightarrow> 'f \<Rightarrow> int \<Rightarrow> ('w, 'f, 'p) Sys \<Rightarrow> Status \<times> 'p \<times> ('w, 'f, 'p) Sys" where
  "readPage env f n sy =
     (case buf_readPage env f n (world sy) of
        (st, p, w) \<Rightarrow> (st, p, emit (ReadPage f n st p) w sy))"

definition unPinPage ::
  "('w, 'f, 'p) Env \<Rightarrow> 'f \<Rightarrow> int \<Rightarrow> bool \<Rightarrow> ('w, 'f, 'p) Sys \<Rightarrow> Status \<times> ('w, 'f, 'p) Sys" where
  "unPinPage env f n dirty sy =
     (case buf_unPinPage env f n dirty (world sy) of
        (st, w) \<Rightarrow> (st, emit (UnPinPage f n dirty st) w sy))"

definition page_init ::
  "('w, 'f, 'p) Env \<Rightarrow> 'p \<Rightarrow> int \<Rightarrow> ('w, 'f, 'p) Sys \<Rightarrow> ('w, 'f, 'p) Sys" where
  "page_init env p n sy = emit (PageCall p (PInit n) OK) (pg_init env p n (world sy)) sy"

definition page_getRecord ::
  "('w, 'f, 'p) Env \<Rightarrow> 'p \<Rightarrow> RID \<Rightarrow> ('w, 'f, 'p) Sys \<Rightarrow> Status \<times> Record \<times> ('w, 'f, 'p) Sys" where
  "page_getRecord env p rid sy =
     (case pg_getRecord env p rid (world sy) of
        (st, r) \<Rightarrow> (st, r, emit (PageCall p (PGetRecord rid) st) (world sy) sy))"

definition page_insertRecord ::
  "('w, 'f, 'p) Env \<Rightarrow> 'p \<Rightarrow> Record \<Rightarrow> ('w, 'f, 'p) Sys \<Rightarrow> Status \<times> RID \<times> ('w, 'f, 'p) Sys" where
  "page_insertRecord env p r sy =
     (case pg_insertRecord env p r (world sy) of
        (st, rid, w) \<Rightarrow> (st, rid, emit (PageCall p (PInsertRecord r) st) w sy))"

definition page_deleteRecord ::
  "('w, 'f, 'p) Env \<Rightarrow> 'p \<Rightarrow> RID \<Rightarrow> ('w, 'f, 'p) Sys \<Rightarrow> Status \<times> ('w, 'f, 'p) Sys" where
  "page_deleteRecord env p rid sy =
     (case pg_deleteRecord env p rid (world sy) of
        (st, w) \<Rightarrow> (st, emit (PageCall p (PDeleteRecord rid) st) w sy))"

definition page_firstRecord ::
  "('w, 'f, 'p) Env \<Rightarrow> 'p \<Rightarrow> ('w, 'f, 'p) Sys \<Rightarrow> Status \<times> RID \<times> ('w, 'f, 'p) Sys" where
  "page_firstRecord env p sy =
     (case pg_firstRecord env p (world sy) of
        (st, rid) \<Rightarrow> (st, rid, emit (PageCall p PFirstRecord st) (world sy) sy))"

definition page_nextRecord ::
  "('w, 'f, 'p) Env \<Rightarrow> 'p \<Rightarrow> RID \<Rightarrow> ('w, 'f, 'p) Sys \<Rightarrow> Status \<times> RID \<times> ('w, 'f, 'p) Sys" where
  "page_nextRecord env p cur sy =
     (case pg_nextRecord env p cur (world sy) of
        (st, rid) \<Rightarrow> (st, rid, emit (PageCall p (PNextRecord cur) st) (world sy) sy))"

definition page_getNextPage ::
  "('w, 'f, 'p) Env \<Rightarrow> 'p \<Rightarrow> ('w, 'f, 'p) Sys \<Rightarrow> Status \<times> int \<times> ('w, 'f, 'p) Sys" where
  "page_getNextPage env p sy =
     (case pg_getNextPage env p (world sy) of
        (st, n) \<Rightarrow> (st, n, emit (PageCall p PGetNextPage st) (world sy) sy))"

definition page_setNextPage ::
  "('w, 'f, 'p) Env \<Rightarrow> 'p \<Rightarrow> int \<Rightarrow> ('w, 'f, 'p) Sys \<Rightarrow> Status \<times> ('w, 'f, 'p) Sys" where
  "page_setNextPage env p n sy =
     (case pg_setNextPage env p n (world sy) of
        (st, w) \<Rightarrow> (st, emit (PageCall p (PSetNextPage n) st) w sy))"

text \<open>Access to a header through its pointer.\<close>

definition hdr_upd ::
  "'p \<Rightarrow> (FileHdrPage \<Rightarrow> FileHdrPage) \<Rightarrow> ('w, 'f, 'p) Sys \<Rightarrow> ('w, 'f, 'p) Sys" where
  "hdr_upd p g sy = sy\<lparr>hdrs := (hdrs sy)(p := g (hdrs sy p))\<rparr>"


section \<open>createHeapFile and destroyHeapFile\<close>

text \<open>
  \<^verbatim>\<open>strncpy(hdrPage->fileName, fileName.c_str(), MAXNAMESIZE)\<close> followed by
  \<^verbatim>\<open>hdrPage->fileName[MAXNAMESIZE - 1] = '\0'\<close>: the stored C string is the name up to its
  first NUL, cut to \<open>MAXNAMESIZE - 1\<close> characters.
\<close>

definition c_name :: "nat \<Rightarrow> string \<Rightarrow> string" where
  "c_name n name = take (n - 1) (takeWhile (\<lambda>c. c \<noteq> CHR 0x00) name)"

definition createHeapFile ::
  "('w, 'f, 'p) Env \<Rightarrow> string \<Rightarrow> ('w, 'f, 'p) Sys \<Rightarrow> Status \<times> ('w, 'f, 'p) Sys" where
  "createHeapFile env name sy =
     (case openFile env name sy of (status, file, sy1) \<Rightarrow>
      if status \<noteq> OK then
        (case createFile env name sy1 of (status, sy2) \<Rightarrow>
         if status \<noteq> OK then (status, sy2) else
         (case openFile env name sy2 of (status, file, sy3) \<Rightarrow>
          if status \<noteq> OK then (status, sy3) else
          (case allocPage env file sy3 of (status, hdrPageNo, newPage, sy4) \<Rightarrow>
           if status \<noteq> OK then (status, sy4) else
           (let hdrPage = newPage;
                sy5 = hdr_upd hdrPage
                        (\<lambda>h. h\<lparr>fileName := c_name (MAXNAMESIZE env) name,
                               pageCnt := 2, recCnt := 0\<rparr>) sy4
            in case allocPage env file sy5 of (status, newPageNo, newPage, sy6) \<Rightarrow>
               if status \<noteq> OK then (status, sy6) else
               (let sy7 = page_init env newPage newPageNo sy6;
                    sy8 = hdr_upd hdrPage
                            (\<lambda>h. h\<lparr>firstPage := newPageNo, lastPage := newPageNo\<rparr>) sy7
                in case unPinPage env file hdrPageNo True sy8 of (status, sy9) \<Rightarrow>
                   if status \<noteq> OK then (status, sy9) else
                   (case unPinPage env file newPageNo True sy9 of (status, sy10) \<Rightarrow>
                    if status \<noteq> OK then (status, sy10) else (OK, sy10)))))))
      else (FILEEXISTS, sy1))"

definition destroyHeapFile ::
  "('w, 'f, 'p) Env \<Rightarrow> string \<Rightarrow> ('w, 'f, 'p) Sys \<Rightarrow> Status \<times> ('w, 'f, 'p) Sys" where
  "destroyHeapFile env name sy = destroyFile env name sy"

section \<open>class HeapFile\<close>

text \<open>
  The data members of \<^verbatim>\<open>HeapFile\<close>. \<open>curPage\<close> is \<open>None\<close> for the null pointer. The
  counters of the header are C \<^verbatim>\<open>int\<close>s: the model holds them as integers, and an
  increment or a decrement wraps around (\<open>wrap32\<close>).
\<close>

record ('f, 'p) HeapFile =
  filePtr :: 'f
  headerPage :: 'p
  headerPageNo :: int
  hdrDirtyFlag :: bool
  curPage :: "'p option"
  curPageNo :: int
  curDirtyFlag :: bool
  curRec :: RID

text \<open>
  A method that dereferences \<open>curPage\<close> without a test has no defined result on a
  null pointer (\<open>NullDeref\<close>); the loop of \<^verbatim>\<open>scanNext\<close> is run with fuel (\<open>NoFuel\<close>
  when it is used up).
\<close>

datatype 'a Run = Ret 'a | NullDeref | NoFuel

text \<open>
  The constructor works on the raw object \<open>this\<close>; on a failure the members assigned so
  far stay assigned and the others keep what the raw memory held.
\<close>

definition HeapFile_ctor ::
  "('w, 'f, 'p) Env \<Rightarrow> string \<Rightarrow> ('f, 'p, 'z) HeapFile_scheme \<Rightarrow> ('w, 'f, 'p) Sys
     \<Rightarrow> Status \<times> ('f, 'p, 'z) HeapFile_scheme \<times> ('w, 'f, 'p) Sys" where
  "HeapFile_ctor env name this sy =
     (case openFile env name sy of (status, f, sy1) \<Rightarrow>
      if status = OK then
        (let this1 = this\<lparr>filePtr := f\<rparr>
         in case getFirstPage env f sy1 of (status, hpn, sy2) \<Rightarrow>
            if status \<noteq> OK then (status, this1, sy2) else
            (let this2 = this1\<lparr>headerPageNo := hpn\<rparr>
             in case readPage env f hpn sy2 of (status, pagePtr, sy3) \<Rightarrow>
                if status \<noteq> OK then (status, this2, sy3) else
                (let this3 = this2\<lparr>headerPage := pagePtr, hdrDirtyFlag := False\<rparr>;
                     firstDataPageNo = firstPage (hdrs sy3 pagePtr)
                 in case readPage env f firstDataPageNo sy3 of (status, pagePtr, sy4) \<Rightarrow>
                    if status \<noteq> OK then (status, this3, sy4) else
                    (OK, this3\<lparr>curPage := Some pagePtr, curPageNo := firstDataPageNo,
                               curDirtyFlag := False, curRec := NULLRID\<rparr>, sy4))))
      else (status, this, sy1))"

definition HeapFile_dtor ::
  "('w, 'f, 'p) Env \<Rightarrow> ('f, 'p, 'z) HeapFile_scheme \<Rightarrow> ('w, 'f, 'p) Sys
     \<Rightarrow> ('f, 'p, 'z) HeapFile_scheme \<times> ('w, 'f, 'p) Sys" where
  "HeapFile_dtor env this sy =
     (case (if curPage this \<noteq> None then
              (case unPinPage env (filePtr this) (curPageNo this) (curDirtyFlag this) sy of
                 (status, sy1) \<Rightarrow>
                   (this\<lparr>curPage := None, curPageNo := 0, curDirtyFlag := False\<rparr>, sy1))
            else (this, sy)) of
        (this1, sy1) \<Rightarrow>
          (case unPinPage env (filePtr this1) (headerPageNo this1) (hdrDirtyFlag this1) sy1 of
             (status, sy2) \<Rightarrow>
               (case closeFile env (filePtr this1) sy2 of (status, sy3) \<Rightarrow> (this1, sy3))))"

definition getRecCnt :: "('f, 'p, 'z) HeapFile_scheme \<Rightarrow> ('w, 'f, 'p) Sys \<Rightarrow> int" where
  "getRecCnt this sy = recCnt (hdrs sy (headerPage this))"

text \<open>
  \<^verbatim>\<open>HeapFile::getRecord(rid, rec)\<close>. The first part selects the page (an early return is
  \<open>Inl\<close>), the second reads the record through it.
\<close>

definition HeapFile_getRecord ::
  "('w, 'f, 'p) Env \<Rightarrow> ('f, 'p, 'z) HeapFile_scheme \<Rightarrow> ('w, 'f, 'p) Sys \<Rightarrow> RID \<Rightarrow> Record
     \<Rightarrow> Status \<times> Record \<times> ('f, 'p, 'z) HeapFile_scheme \<times> ('w, 'f, 'p) Sys" where
  "HeapFile_getRecord env this sy rid rec =
     (case (case curPage this of
              Some cp \<Rightarrow>
                if curPageNo this = pageNo rid then Inr (cp, this, sy)
                else
                  (case unPinPage env (filePtr this) (curPageNo this) (curDirtyFlag this) sy of
                     (status, sy1) \<Rightarrow>
                       if status \<noteq> OK then Inl (status, rec, this, sy1) else
                       (case readPage env (filePtr this) (pageNo rid) sy1 of
                          (status, page, sy2) \<Rightarrow>
                            if status \<noteq> OK then Inl (status, rec, this, sy2) else
                            Inr (page, this\<lparr>curPage := Some page, curPageNo := pageNo rid,
                                            curDirtyFlag := False\<rparr>, sy2)))
            | None \<Rightarrow>
                (case readPage env (filePtr this) (pageNo rid) sy of
                   (status, page, sy2) \<Rightarrow>
                     if status \<noteq> OK then Inl (status, rec, this, sy2) else
                     Inr (page, this\<lparr>curPage := Some page, curPageNo := pageNo rid,
                                     curDirtyFlag := False\<rparr>, sy2))) of
        Inl early \<Rightarrow> early
      | Inr (page, this1, sy3) \<Rightarrow>
          (case page_getRecord env page rid sy3 of (status, r, sy4) \<Rightarrow>
           if status \<noteq> OK then
             (if curPageNo this1 \<noteq> pageNo rid then
                (case unPinPage env (filePtr this1) (pageNo rid) False sy4 of
                   (ignored, sy5) \<Rightarrow> (status, rec, this1, sy5))
              else (status, rec, this1, sy4))
           else (OK, r, this1\<lparr>curRec := rid\<rparr>, sy4)))"


section \<open>class HeapFileScan\<close>

record ('f, 'p) HeapFileScan = "('f, 'p) HeapFile" +
  offset :: int
  length_s :: int
  type_s :: Datatype
  filter_s :: "byte list option"
  op_s :: Operator
  markedPageNo :: int
  markedRec :: RID

definition HeapFileScan_ctor ::
  "('w, 'f, 'p) Env \<Rightarrow> string \<Rightarrow> ('f, 'p) HeapFileScan \<Rightarrow> ('w, 'f, 'p) Sys
     \<Rightarrow> Status \<times> ('f, 'p) HeapFileScan \<times> ('w, 'f, 'p) Sys" where
  "HeapFileScan_ctor env name this sy =
     (case HeapFile_ctor env name this sy of
        (status, this1, sy1) \<Rightarrow> (status, this1\<lparr>filter_s := None\<rparr>, sy1))"

definition startScan ::
  "('f, 'p) HeapFileScan \<Rightarrow> int \<Rightarrow> int \<Rightarrow> Datatype \<Rightarrow> byte list option \<Rightarrow> Operator
     \<Rightarrow> Status \<times> ('f, 'p) HeapFileScan" where
  "startScan this offset_a length_a type_a filter_a op_a =
     (case filter_a of
        None \<Rightarrow> (OK, this\<lparr>filter_s := None\<rparr>)
      | Some fl \<Rightarrow>
          if (offset_a < 0 \<or> length_a < 1) \<or>
             (type_a \<noteq> STRING \<and> type_a \<noteq> INTEGER \<and> type_a \<noteq> FLOAT) \<or>
             (type_a = INTEGER \<and> length_a \<noteq> sizeof_int \<or>
              type_a = FLOAT \<and> length_a \<noteq> sizeof_float) \<or>
             (op_a \<noteq> LT \<and> op_a \<noteq> LTE \<and> op_a \<noteq> EQ \<and> op_a \<noteq> GTE \<and> op_a \<noteq> GT \<and> op_a \<noteq> NE)
          then (BADSCANPARM, this)
          else (OK, this\<lparr>offset := offset_a, length_s := length_a, type_s := type_a,
                         filter_s := Some fl, op_s := op_a\<rparr>))"

definition endScan ::
  "('w, 'f, 'p) Env \<Rightarrow> ('f, 'p) HeapFileScan \<Rightarrow> ('w, 'f, 'p) Sys
     \<Rightarrow> Status \<times> ('f, 'p) HeapFileScan \<times> ('w, 'f, 'p) Sys" where
  "endScan env this sy =
     (if curPage this \<noteq> None then
        (case unPinPage env (filePtr this) (curPageNo this) (curDirtyFlag this) sy of
           (status, sy1) \<Rightarrow>
             (status, this\<lparr>curPage := None, curPageNo := 0, curDirtyFlag := False\<rparr>, sy1))
      else (OK, this, sy))"

definition HeapFileScan_dtor ::
  "('w, 'f, 'p) Env \<Rightarrow> ('f, 'p) HeapFileScan \<Rightarrow> ('w, 'f, 'p) Sys
     \<Rightarrow> ('f, 'p) HeapFileScan \<times> ('w, 'f, 'p) Sys" where
  "HeapFileScan_dtor env this sy =
     (case endScan env this sy of (status, this1, sy1) \<Rightarrow> HeapFile_dtor env this1 sy1)"

definition markScan :: "('f, 'p) HeapFileScan \<Rightarrow> Status \<times> ('f, 'p) HeapFileScan" where
  "markScan this = (OK, this\<lparr>markedPageNo := curPageNo this, markedRec := curRec this\<rparr>)"

definition resetScan ::
  "('w, 'f, 'p) Env \<Rightarrow> ('f, 'p) HeapFileScan \<Rightarrow> ('w, 'f, 'p) Sys
     \<Rightarrow> Status \<times> ('f, 'p) HeapFileScan \<times> ('w, 'f, 'p) Sys" where
  "resetScan env this sy =
     (if markedPageNo this \<noteq> curPageNo this then
        (case (if curPage this \<noteq> None then
                 unPinPage env (filePtr this) (curPageNo this) (curDirtyFlag this) sy
               else (OK, sy)) of
           (status, sy1) \<Rightarrow>
             if status \<noteq> OK then (status, this, sy1) else
             (let this1 = this\<lparr>curPageNo := markedPageNo this, curRec := markedRec this\<rparr>
              in case readPage env (filePtr this1) (curPageNo this1) sy1 of
                   (status, page, sy2) \<Rightarrow>
                     if status \<noteq> OK then (status, this1, sy2) else
                     (OK, this1\<lparr>curPage := Some page, curDirtyFlag := False\<rparr>, sy2)))
      else (OK, this\<lparr>curRec := markedRec this\<rparr>, sy))"

text \<open>
  The bytes \<^verbatim>\<open>memcpy\<close> and \<^verbatim>\<open>strncmp\<close> read: \<open>n\<close> bytes from position \<open>off\<close> of a buffer.
  The buffer of a record holds at least \<open>length'\<close> bytes and that of a filter at least
  \<open>length_s\<close> bytes; \<^verbatim>\<open>startScan\<close> has checked \<open>0 \<le> offset\<close> and \<open>1 \<le> length_s\<close>.
\<close>

definition window :: "byte list \<Rightarrow> int \<Rightarrow> int \<Rightarrow> byte list" where
  "window buf off n = take (nat n) (drop (nat off) buf)"

text \<open>The \<^verbatim>\<open>int\<close> that \<^verbatim>\<open>memcpy\<close> leaves in a 4-byte variable (little-endian, two's complement).\<close>

definition le_nat :: "byte list \<Rightarrow> nat" where
  "le_nat bs = foldr (\<lambda>b acc. unat b + 256 * acc) bs 0"

definition int_of_bytes :: "byte list \<Rightarrow> int" where
  "int_of_bytes bs = wrap32 (int (le_nat bs))"

text \<open>\<^verbatim>\<open>strncmp\<close>: at most \<open>n\<close> characters, compared as unsigned bytes, stopping at a NUL.\<close>

fun strncmp :: "byte list \<Rightarrow> byte list \<Rightarrow> nat \<Rightarrow> int" where
  "strncmp a b 0 = 0"
| "strncmp a b (Suc n) =
     (let x = (case a of [] \<Rightarrow> 0 | x # xs \<Rightarrow> x);
          y = (case b of [] \<Rightarrow> 0 | y # ys \<Rightarrow> y)
      in if x \<noteq> y then (if unat x < unat y then -1 else 1)
         else if x = 0 then 0
         else strncmp (tl a) (tl b) n)"

definition matchRec :: "('w, 'f, 'p) Env \<Rightarrow> ('f, 'p) HeapFileScan \<Rightarrow> Record \<Rightarrow> bool" where
  "matchRec env this rec =
     (case filter_s this of
        None \<Rightarrow> True
      | Some fl \<Rightarrow>
          if wrap32 (wrap32 (offset this + length_s this) - 1) \<ge> length' rec then False
          else
            (let attr = window (data rec) (offset this) (length_s this);
                 fltr = window fl 0 (length_s this);
                 diff =
                   (case type_s this of
                      INTEGER \<Rightarrow>
                        float_of_int (wrap32 (int_of_bytes attr - int_of_bytes fltr))
                    | FLOAT \<Rightarrow> float_diff env attr fltr
                    | STRING \<Rightarrow> float_of_int (strncmp attr fltr (nat (length_s this)))
                    | BadDatatype k \<Rightarrow> FZero)
             in case op_s this of
                  LT \<Rightarrow> diff = FNeg
                | LTE \<Rightarrow> diff = FNeg \<or> diff = FZero
                | EQ \<Rightarrow> diff = FZero
                | GTE \<Rightarrow> diff = FZero \<or> diff = FPos
                | GT \<Rightarrow> diff = FPos
                | NE \<Rightarrow> diff \<noteq> FZero
                | BadOperator k \<Rightarrow> False))"

text \<open>
  \<^verbatim>\<open>scanNext\<close>: one unit of fuel per iteration of \<^verbatim>\<open>while (true)\<close>. The result holds the
  status, the caller's \<open>outRid\<close> after the call, the object and the outside state.
\<close>

fun scanNext ::
  "('w, 'f, 'p) Env \<Rightarrow> nat \<Rightarrow> ('f, 'p) HeapFileScan \<Rightarrow> ('w, 'f, 'p) Sys \<Rightarrow> RID
     \<Rightarrow> (Status \<times> RID \<times> ('f, 'p) HeapFileScan \<times> ('w, 'f, 'p) Sys) Run" where
  "scanNext env 0 this sy outRid = NoFuel"
| "scanNext env (Suc n) this sy outRid =
     (case curPage this of
        None \<Rightarrow> NullDeref
      | Some cp \<Rightarrow>
          (case (if pageNo (curRec this) = -1 \<and> slotNo (curRec this) = -1
                 then page_firstRecord env cp sy
                 else page_nextRecord env cp (curRec this) sy) of
             (status, nextRid, sy1) \<Rightarrow>
               if status = NORECORDS \<or> status = ENDOFPAGE then
                 (case unPinPage env (filePtr this) (curPageNo this) (curDirtyFlag this) sy1 of
                    (status, sy2) \<Rightarrow>
                      if status \<noteq> OK then Ret (status, outRid, this, sy2) else
                      (case page_getNextPage env cp sy2 of
                         (status, nextPageNo, sy3) \<Rightarrow>
                           if status \<noteq> OK then Ret (status, outRid, this, sy3) else
                           if nextPageNo = -1
                           then Ret (NOMORERECS, outRid, this\<lparr>curPage := None\<rparr>, sy3)
                           else
                             (case readPage env (filePtr this) nextPageNo sy3 of
                                (status, page, sy4) \<Rightarrow>
                                  if status \<noteq> OK then Ret (status, outRid, this, sy4) else
                                  scanNext env n
                                    (this\<lparr>curPage := Some page, curPageNo := nextPageNo,
                                          curRec := NULLRID, curDirtyFlag := False\<rparr>)
                                    sy4 outRid)))
               else if status \<noteq> OK then Ret (status, outRid, this, sy1)
               else
                 (case page_getRecord env cp nextRid sy1 of
                    (status, rec, sy2) \<Rightarrow>
                      if status \<noteq> OK then Ret (status, outRid, this, sy2) else
                      if matchRec env this rec
                      then Ret (OK, nextRid, this\<lparr>curRec := nextRid\<rparr>, sy2)
                      else scanNext env n (this\<lparr>curRec := nextRid\<rparr>) sy2 outRid)))"

definition HeapFileScan_getRecord ::
  "('w, 'f, 'p) Env \<Rightarrow> ('f, 'p) HeapFileScan \<Rightarrow> ('w, 'f, 'p) Sys \<Rightarrow> Record
     \<Rightarrow> (Status \<times> Record \<times> ('w, 'f, 'p) Sys) Run" where
  "HeapFileScan_getRecord env this sy rec =
     (case curPage this of
        None \<Rightarrow> NullDeref
      | Some cp \<Rightarrow>
          (case page_getRecord env cp (curRec this) sy of
             (status, r, sy1) \<Rightarrow> Ret (status, if status = OK then r else rec, sy1)))"

definition deleteRecord ::
  "('w, 'f, 'p) Env \<Rightarrow> ('f, 'p) HeapFileScan \<Rightarrow> ('w, 'f, 'p) Sys
     \<Rightarrow> (Status \<times> ('f, 'p) HeapFileScan \<times> ('w, 'f, 'p) Sys) Run" where
  "deleteRecord env this sy =
     (case curPage this of
        None \<Rightarrow> NullDeref
      | Some cp \<Rightarrow>
          (case page_deleteRecord env cp (curRec this) sy of
             (status, sy1) \<Rightarrow>
               (let this1 = this\<lparr>curDirtyFlag := True\<rparr>;
                    sy2 = hdr_upd (headerPage this1) (\<lambda>h. h\<lparr>recCnt := wrap32 (recCnt h - 1)\<rparr>) sy1;
                    this2 = this1\<lparr>hdrDirtyFlag := True\<rparr>
                in Ret (status, this2, sy2))))"

definition markDirty :: "('f, 'p) HeapFileScan \<Rightarrow> Status \<times> ('f, 'p) HeapFileScan" where
  "markDirty this = (OK, this\<lparr>curDirtyFlag := True\<rparr>)"

section \<open>class InsertFileScan\<close>

text \<open>\<^verbatim>\<open>InsertFileScan\<close> adds no data member to \<^verbatim>\<open>HeapFile\<close>; its constructor is the base
  constructor.\<close>

definition InsertFileScan_dtor ::
  "('w, 'f, 'p) Env \<Rightarrow> ('f, 'p) HeapFile \<Rightarrow> ('w, 'f, 'p) Sys
     \<Rightarrow> ('f, 'p) HeapFile \<times> ('w, 'f, 'p) Sys" where
  "InsertFileScan_dtor env this sy =
     (case (if curPage this \<noteq> None then
              (case unPinPage env (filePtr this) (curPageNo this) True sy of
                 (status, sy1) \<Rightarrow> (this\<lparr>curPage := None, curPageNo := 0\<rparr>, sy1))
            else (this, sy)) of
        (this1, sy1) \<Rightarrow> HeapFile_dtor env this1 sy1)"

text \<open>The operands of \<^verbatim>\<open>(unsigned int) rec.length > PAGESIZE-DPFIXED\<close> are compared as
  unsigned 32-bit values.\<close>

definition u32 :: "int \<Rightarrow> int" where
  "u32 i = i mod 2 ^ 32"

definition insertRecord ::
  "('w, 'f, 'p) Env \<Rightarrow> ('f, 'p) HeapFile \<Rightarrow> ('w, 'f, 'p) Sys \<Rightarrow> Record \<Rightarrow> RID
     \<Rightarrow> (Status \<times> RID \<times> ('f, 'p) HeapFile \<times> ('w, 'f, 'p) Sys) Run" where
  "insertRecord env this sy rec outRid =
     (if u32 (length' rec) > u32 (PAGESIZE env - DPFIXED env)
      then Ret (INVALIDRECLEN, outRid, this, sy)
      else
        (case curPage this of
           None \<Rightarrow> NullDeref
         | Some cp \<Rightarrow>
             (case page_insertRecord env cp rec sy of
                (status, rid, sy1) \<Rightarrow>
                  if status = OK then
                    Ret (OK, rid, this\<lparr>hdrDirtyFlag := True, curDirtyFlag := True\<rparr>,
                         hdr_upd (headerPage this) (\<lambda>h. h\<lparr>recCnt := wrap32 (recCnt h + 1)\<rparr>) sy1)
                  else if status = NOSPACE then
                    (case allocPage env (filePtr this) sy1 of
                       (status, newPageNo, newPage, sy2) \<Rightarrow>
                         if status \<noteq> OK then Ret (status, outRid, this, sy2) else
                         (let sy3 = page_init env newPage newPageNo sy2
                          in case page_setNextPage env cp newPageNo sy3 of
                               (status, sy4) \<Rightarrow>
                                 if status \<noteq> OK then Ret (status, outRid, this, sy4) else
                                 (case unPinPage env (filePtr this) (curPageNo this) True sy4 of
                                    (status, sy5) \<Rightarrow>
                                      if status \<noteq> OK then Ret (status, outRid, this, sy5) else
                                      (let sy6 = hdr_upd (headerPage this)
                                                   (\<lambda>h. h\<lparr>lastPage := newPageNo,
                                                          pageCnt := wrap32 (pageCnt h + 1)\<rparr>) sy5;
                                           this1 = this\<lparr>hdrDirtyFlag := True,
                                                       curPage := Some newPage,
                                                       curPageNo := newPageNo,
                                                       curDirtyFlag := False\<rparr>
                                       in case page_insertRecord env newPage rec sy6 of
                                            (status, rid, sy7) \<Rightarrow>
                                              if status \<noteq> OK
                                              then Ret (status, outRid, this1, sy7)
                                              else
                                                Ret (OK, rid,
                                                     this1\<lparr>hdrDirtyFlag := True,
                                                           curDirtyFlag := True\<rparr>,
                                                     hdr_upd (headerPage this1)
                                                       (\<lambda>h. h\<lparr>recCnt := wrap32 (recCnt h + 1)\<rparr>)
                                                       sy7)))))
                  else Ret (status, outRid, this, sy1))))"


section \<open>Reference collaborators\<close>

text \<open>
  Modelled from the spec: the file layer, the buffer pool and the page abstraction, whose
  sources are not in the repository (the spec gives their interface in its section on
  external interfaces). A file is the list of its pages, numbered from 1 in the order of
  allocation; a \<^verbatim>\<open>File*\<close> is the file's name and a \<^verbatim>\<open>Page*\<close> is the pair of file name and
  page number. A page holds its own number, the number of the next page (\<open>-1\<close> at the end
  of the chain) and its slots, each holding a record or empty. The buffer pool keeps one
  entry per pin and has \<open>rw_numBufs\<close> frames: a page that is not pinned yet can be pinned
  only while fewer than \<open>rw_numBufs\<close> pages are.
\<close>

record RefPage =
  rp_no :: int
  rp_next :: int
  rp_slots :: "Record option list"

record RefWorld =
  rw_files :: "string \<Rightarrow> RefPage list option"
  rw_pins :: "(string \<times> int) list"
  rw_numBufs :: nat

definition ref_PAGESIZE :: int where
  "ref_PAGESIZE = 32"

definition ref_DPFIXED :: int where
  "ref_DPFIXED = 20"

definition ref_slot_size :: int where
  "ref_slot_size = 4"

definition blank_page :: RefPage where
  "blank_page = \<lparr>rp_no = 0, rp_next = 0, rp_slots = []\<rparr>"

definition dummy_rec :: Record where
  "dummy_rec = \<lparr>data = [], length' = 0\<rparr>"

definition ref_page :: "RefWorld \<Rightarrow> string \<times> int \<Rightarrow> RefPage option" where
  "ref_page w p =
     (case rw_files w (fst p) of
        None \<Rightarrow> None
      | Some pgs \<Rightarrow>
          if 1 \<le> snd p \<and> snd p \<le> int (length pgs) then Some (pgs ! (nat (snd p) - 1))
          else None)"

definition ref_put :: "string \<times> int \<Rightarrow> RefPage \<Rightarrow> RefWorld \<Rightarrow> RefWorld" where
  "ref_put p pg w =
     (case rw_files w (fst p) of
        None \<Rightarrow> w
      | Some pgs \<Rightarrow>
          if 1 \<le> snd p \<and> snd p \<le> int (length pgs)
          then w\<lparr>rw_files := (rw_files w)(fst p := Some (pgs[nat (snd p) - 1 := pg]))\<rparr>
          else w)"

definition pool_full :: "RefWorld \<Rightarrow> string \<times> int \<Rightarrow> bool" where
  "pool_full w p = (p \<notin> set (rw_pins w) \<and> rw_numBufs w \<le> length (remdups (rw_pins w)))"

definition ref_openFile :: "string \<Rightarrow> RefWorld \<Rightarrow> Status \<times> string \<times> RefWorld" where
  "ref_openFile name w = (if rw_files w name = None then (UNIXERR, name, w) else (OK, name, w))"

definition ref_createFile :: "string \<Rightarrow> RefWorld \<Rightarrow> Status \<times> RefWorld" where
  "ref_createFile name w =
     (if rw_files w name = None then (OK, w\<lparr>rw_files := (rw_files w)(name := Some [])\<rparr>)
      else (FILEEXISTS, w))"

definition ref_closeFile :: "string \<Rightarrow> RefWorld \<Rightarrow> Status \<times> RefWorld" where
  "ref_closeFile f w = (OK, w)"

definition ref_destroyFile :: "string \<Rightarrow> RefWorld \<Rightarrow> Status \<times> RefWorld" where
  "ref_destroyFile name w =
     (if rw_files w name = None then (UNIXERR, w)
      else (OK, w\<lparr>rw_files := (rw_files w)(name := None)\<rparr>))"

definition ref_getFirstPage :: "string \<Rightarrow> RefWorld \<Rightarrow> Status \<times> int" where
  "ref_getFirstPage f w =
     (case rw_files w f of
        None \<Rightarrow> (UNIXERR, -1)
      | Some pgs \<Rightarrow> (OK, if pgs = [] then -1 else 1))"

definition ref_allocPage ::
  "string \<Rightarrow> RefWorld \<Rightarrow> Status \<times> int \<times> (string \<times> int) \<times> RefWorld" where
  "ref_allocPage f w =
     (case rw_files w f of
        None \<Rightarrow> (UNIXERR, 0, (f, 0), w)
      | Some pgs \<Rightarrow>
          (let n = int (length pgs) + 1
           in if pool_full w (f, n) then (BUFFEREXCEEDED, 0, (f, 0), w)
              else (OK, n, (f, n),
                    w\<lparr>rw_files := (rw_files w)(f := Some (pgs @ [blank_page])),
                      rw_pins := (f, n) # rw_pins w\<rparr>)))"

definition ref_readPage ::
  "string \<Rightarrow> int \<Rightarrow> RefWorld \<Rightarrow> Status \<times> (string \<times> int) \<times> RefWorld" where
  "ref_readPage f n w =
     (if ref_page w (f, n) = None then (BADPAGENO, (f, n), w)
      else if pool_full w (f, n) then (BUFFEREXCEEDED, (f, n), w)
      else (OK, (f, n), w\<lparr>rw_pins := (f, n) # rw_pins w\<rparr>))"

definition ref_unPinPage :: "string \<Rightarrow> int \<Rightarrow> bool \<Rightarrow> RefWorld \<Rightarrow> Status \<times> RefWorld" where
  "ref_unPinPage f n dirty w =
     (if (f, n) \<in> set (rw_pins w) then (OK, w\<lparr>rw_pins := remove1 (f, n) (rw_pins w)\<rparr>)
      else (PAGENOTPINNED, w))"

definition ref_init :: "string \<times> int \<Rightarrow> int \<Rightarrow> RefWorld \<Rightarrow> RefWorld" where
  "ref_init p n w = ref_put p \<lparr>rp_no = n, rp_next = -1, rp_slots = []\<rparr> w"

definition slot_ok :: "RefPage \<Rightarrow> int \<Rightarrow> bool" where
  "slot_ok pg k = (0 \<le> k \<and> k < int (length (rp_slots pg)) \<and> rp_slots pg ! nat k \<noteq> None)"

definition ref_getRecord :: "string \<times> int \<Rightarrow> RID \<Rightarrow> RefWorld \<Rightarrow> Status \<times> Record" where
  "ref_getRecord p rid w =
     (case ref_page w p of
        None \<Rightarrow> (BADPAGENO, dummy_rec)
      | Some pg \<Rightarrow>
          if slot_ok pg (slotNo rid) then (OK, the (rp_slots pg ! nat (slotNo rid)))
          else (INVALIDSLOT, dummy_rec))"

text \<open>The bytes a page has in use: per slot its entry, and the record if it holds one.\<close>

definition used :: "RefPage \<Rightarrow> int" where
  "used pg =
     (\<Sum>s \<leftarrow> rp_slots pg. ref_slot_size + (case s of None \<Rightarrow> 0 | Some r \<Rightarrow> length' r))"

definition ref_insertRecord ::
  "string \<times> int \<Rightarrow> Record \<Rightarrow> RefWorld \<Rightarrow> Status \<times> RID \<times> RefWorld" where
  "ref_insertRecord p r w =
     (case ref_page w p of
        None \<Rightarrow> (BADPAGENO, NULLRID, w)
      | Some pg \<Rightarrow>
          if ref_PAGESIZE - ref_DPFIXED < used pg + length' r then (NOSPACE, NULLRID, w)
          else (OK, \<lparr>pageNo = rp_no pg, slotNo = int (length (rp_slots pg))\<rparr>,
                ref_put p (pg\<lparr>rp_slots := rp_slots pg @ [Some r]\<rparr>) w))"

definition ref_deleteRecord :: "string \<times> int \<Rightarrow> RID \<Rightarrow> RefWorld \<Rightarrow> Status \<times> RefWorld" where
  "ref_deleteRecord p rid w =
     (case ref_page w p of
        None \<Rightarrow> (BADPAGENO, w)
      | Some pg \<Rightarrow>
          if slot_ok pg (slotNo rid)
          then (OK, ref_put p (pg\<lparr>rp_slots := (rp_slots pg)[nat (slotNo rid) := None]\<rparr>) w)
          else (INVALIDSLOT, w))"

text \<open>The first occupied slot at or after position \<open>i\<close>.\<close>

definition slot_from :: "RefPage \<Rightarrow> nat \<Rightarrow> nat option" where
  "slot_from pg i = List.find (\<lambda>j. rp_slots pg ! j \<noteq> None) [i ..< length (rp_slots pg)]"

definition ref_firstRecord :: "string \<times> int \<Rightarrow> RefWorld \<Rightarrow> Status \<times> RID" where
  "ref_firstRecord p w =
     (case ref_page w p of
        None \<Rightarrow> (BADPAGENO, NULLRID)
      | Some pg \<Rightarrow>
          (case slot_from pg 0 of
             None \<Rightarrow> (NORECORDS, NULLRID)
           | Some j \<Rightarrow> (OK, \<lparr>pageNo = rp_no pg, slotNo = int j\<rparr>)))"

definition ref_nextRecord :: "string \<times> int \<Rightarrow> RID \<Rightarrow> RefWorld \<Rightarrow> Status \<times> RID" where
  "ref_nextRecord p cur w =
     (case ref_page w p of
        None \<Rightarrow> (BADPAGENO, NULLRID)
      | Some pg \<Rightarrow>
          (case slot_from pg (nat (slotNo cur + 1)) of
             None \<Rightarrow> (ENDOFPAGE, NULLRID)
           | Some j \<Rightarrow> (OK, \<lparr>pageNo = rp_no pg, slotNo = int j\<rparr>)))"

definition ref_getNextPage :: "string \<times> int \<Rightarrow> RefWorld \<Rightarrow> Status \<times> int" where
  "ref_getNextPage p w =
     (case ref_page w p of None \<Rightarrow> (BADPAGENO, -1) | Some pg \<Rightarrow> (OK, rp_next pg))"

definition ref_setNextPage :: "string \<times> int \<Rightarrow> int \<Rightarrow> RefWorld \<Rightarrow> Status \<times> RefWorld" where
  "ref_setNextPage p n w =
     (case ref_page w p of
        None \<Rightarrow> (BADPAGENO, w)
      | Some pg \<Rightarrow> (OK, ref_put p (pg\<lparr>rp_next := n\<rparr>) w))"

text \<open>The reference environment fixes no floating-point arithmetic: the comparison of
  two \<^verbatim>\<open>float\<close> windows in \<^verbatim>\<open>matchRec\<close> stays a parameter \<open>fd\<close>.\<close>

definition ref_env ::
  "(byte list \<Rightarrow> byte list \<Rightarrow> fsign) \<Rightarrow> (RefWorld, string, string \<times> int) Env" where
  "ref_env fd =
     \<lparr>db_openFile = ref_openFile, db_createFile = ref_createFile,
      db_closeFile = ref_closeFile, db_destroyFile = ref_destroyFile,
      file_getFirstPage = ref_getFirstPage, buf_allocPage = ref_allocPage,
      buf_readPage = ref_readPage, buf_unPinPage = ref_unPinPage,
      pg_init = ref_init, pg_getRecord = ref_getRecord,
      pg_insertRecord = ref_insertRecord, pg_deleteRecord = ref_deleteRecord,
      pg_firstRecord = ref_firstRecord, pg_nextRecord = ref_nextRecord,
      pg_getNextPage = ref_getNextPage, pg_setNextPage = ref_setNextPage,
      float_diff = fd, MAXNAMESIZE = 50,
      PAGESIZE = ref_PAGESIZE, DPFIXED = ref_DPFIXED\<rparr>"

text \<open>An empty database with a pool of \<open>n\<close> frames, no header written, no call made.\<close>

definition blank_hdr :: FileHdrPage where
  "blank_hdr = \<lparr>fileName = [], firstPage = 0, lastPage = 0, pageCnt = 0, recCnt = 0\<rparr>"

definition init_sys :: "nat \<Rightarrow> (RefWorld, string, string \<times> int) Sys" where
  "init_sys n =
     \<lparr>world = \<lparr>rw_files = (\<lambda>name. None), rw_pins = [], rw_numBufs = n\<rparr>,
      hdrs = (\<lambda>p. blank_hdr), trace = []\<rparr>"


section \<open>Sample objects\<close>

text \<open>Raw objects for the constructors (the members hold what the memory held), and small
  records: with the reference page size a data page takes two records of four bytes.\<close>

definition raw_hf :: "(string, string \<times> int) HeapFile" where
  "raw_hf =
     \<lparr>filePtr = [], headerPage = ([], 0), headerPageNo = 0, hdrDirtyFlag = False,
      curPage = None, curPageNo = 0, curDirtyFlag = False, curRec = NULLRID\<rparr>"

definition raw_scan :: "(string, string \<times> int) HeapFileScan" where
  "raw_scan =
     \<lparr>filePtr = [], headerPage = ([], 0), headerPageNo = 0, hdrDirtyFlag = False,
      curPage = None, curPageNo = 0, curDirtyFlag = False, curRec = NULLRID,
      offset = 0, length_s = 0, type_s = STRING, filter_s = None, op_s = EQ,
      markedPageNo = 0, markedRec = NULLRID\<rparr>"

definition rec4 :: "byte \<Rightarrow> Record" where
  "rec4 b = \<lparr>data = [b, 0, 0, 0], length' = 4\<rparr>"

text \<open>
  A reference database holding the heap file \<open>t1\<close>: the header page 1, the data page 2
  with two records and the data page 3 with two, four records in all; both data pages are full. \<open>sys_t1 cur\<close> is
  its state while an object holds the header page and the data page \<open>cur\<close> pinned, and
  \<open>scan_t1 cur rid\<close> is such an object, a scan without a filter standing at \<open>rid\<close>.
\<close>

definition page2 :: RefPage where
  "page2 = \<lparr>rp_no = 2, rp_next = 3, rp_slots = [Some (rec4 1), Some (rec4 2)]\<rparr>"

definition page3 :: RefPage where
  "page3 = \<lparr>rp_no = 3, rp_next = -1, rp_slots = [Some (rec4 3), Some (rec4 4)]\<rparr>"

definition hdr_t1 :: FileHdrPage where
  "hdr_t1 = \<lparr>fileName = ''t1'', firstPage = 2, lastPage = 3, pageCnt = 3, recCnt = 4\<rparr>"

definition sys_t1 :: "int \<Rightarrow> (RefWorld, string, string \<times> int) Sys" where
  "sys_t1 cur =
     \<lparr>world = \<lparr>rw_files = (\<lambda>name. None)(''t1'' := Some [blank_page, page2, page3]),
               rw_pins = [(''t1'', cur), (''t1'', 1)], rw_numBufs = 3\<rparr>,
      hdrs = (\<lambda>p. blank_hdr)((''t1'', 1) := hdr_t1), trace = []\<rparr>"

definition scan_t1 :: "int \<Rightarrow> RID \<Rightarrow> (string, string \<times> int) HeapFileScan" where
  "scan_t1 cur rid =
     \<lparr>filePtr = ''t1'', headerPage = (''t1'', 1), headerPageNo = 1, hdrDirtyFlag = False,
      curPage = Some (''t1'', cur), curPageNo = cur, curDirtyFlag = False, curRec = rid,
      offset = 0, length_s = 0, type_s = STRING, filter_s = None, op_s = EQ,
      markedPageNo = 0, markedRec = NULLRID\<rparr>"

definition ins_t1 :: "int \<Rightarrow> (string, string \<times> int) HeapFile" where
  "ins_t1 cur =
     \<lparr>filePtr = ''t1'', headerPage = (''t1'', 1), headerPageNo = 1, hdrDirtyFlag = False,
      curPage = Some (''t1'', cur), curPageNo = cur, curDirtyFlag = False, curRec = NULLRID\<rparr>"

text \<open>The same database with a pool of two frames only: both are taken.\<close>

definition sys_t1_full :: "int \<Rightarrow> (RefWorld, string, string \<times> int) Sys" where
  "sys_t1_full cur = (sys_t1 cur)\<lparr>world := (world (sys_t1 cur))\<lparr>rw_numBufs := 2\<rparr>\<rparr>"

text \<open>The state \<open>createHeapFile\<close> leaves when it creates \<open>t1\<close> in the empty database with
  two frames.\<close>

definition sys_created :: "(RefWorld, string, string \<times> int) Sys" where
  "sys_created =
     \<lparr>world =
        \<lparr>rw_files = (\<lambda>name. None)
           (''t1'' := Some [blank_page, \<lparr>rp_no = 2, rp_next = -1, rp_slots = []\<rparr>]),
         rw_pins = [], rw_numBufs = 2\<rparr>,
      hdrs = (\<lambda>p. blank_hdr)
        ((''t1'', 1) :=
           \<lparr>fileName = ''t1'', firstPage = 2, lastPage = 2, pageCnt = 2, recCnt = 0\<rparr>),
      trace =
        [OpenFile ''t1'' UNIXERR, CreateFile ''t1'' OK, OpenFile ''t1'' OK,
         AllocPage ''t1'' OK 1 (''t1'', 1), AllocPage ''t1'' OK 2 (''t1'', 2),
         PageCall (''t1'', 2) (PInit 2) OK, UnPinPage ''t1'' 1 True OK,
         UnPinPage ''t1'' 2 True OK]\<rparr>"

section \<open>Use of a page after its unpin\<close>

text \<open>
  The page calls of a list of events that went through a handle whose page was not
  pinned at that moment. \<open>pins\<close> holds, per pin in force, the file, the page number and
  the handle the buffer pool gave for it.
\<close>

fun unpin1 :: "'f \<Rightarrow> int \<Rightarrow> ('f \<times> int \<times> 'p) list \<Rightarrow> ('f \<times> int \<times> 'p) list" where
  "unpin1 f n [] = []"
| "unpin1 f n (x # xs) = (if fst x = f \<and> fst (snd x) = n then xs else x # unpin1 f n xs)"

fun stale_calls :: "('f \<times> int \<times> 'p) list \<Rightarrow> ('f, 'p) Event list \<Rightarrow> ('f, 'p) Event list" where
  "stale_calls pins [] = []"
| "stale_calls pins (ReadPage f n st p # es) =
     stale_calls (if st = OK then (f, n, p) # pins else pins) es"
| "stale_calls pins (AllocPage f st n p # es) =
     stale_calls (if st = OK then (f, n, p) # pins else pins) es"
| "stale_calls pins (UnPinPage f n d st # es) =
     stale_calls (if st = OK then unpin1 f n pins else pins) es"
| "stale_calls pins (PageCall p c st # es) =
     (if p \<in> (\<lambda>x. snd (snd x)) ` set pins then stale_calls pins es
      else PageCall p c st # stale_calls pins es)"
| "stale_calls pins (e # es) = stale_calls pins es"

section \<open>Runs of a scan\<close>

text \<open>What the caller of \<open>scanNext\<close> sees: the status and the RID.\<close>

definition outcome ::
  "(Status \<times> RID \<times> 'a \<times> 'b) Run \<Rightarrow> (Status \<times> RID) Run" where
  "outcome r =
     (case r of
        Ret (st, rid, this, sy) \<Rightarrow> Ret (st, rid)
      | NullDeref \<Rightarrow> NullDeref
      | NoFuel \<Rightarrow> NoFuel)"

text \<open>A sequence of calls of \<open>scanNext\<close>, each with its own fuel, all of which return \<open>OK\<close>.\<close>

fun nexts ::
  "('w, 'f, 'p) Env \<Rightarrow> nat list \<Rightarrow> ('f, 'p) HeapFileScan \<Rightarrow> ('w, 'f, 'p) Sys
     \<Rightarrow> (('f, 'p) HeapFileScan \<times> ('w, 'f, 'p) Sys) option" where
  "nexts env [] this sy = Some (this, sy)"
| "nexts env (k # ks) this sy =
     (case scanNext env k this sy NULLRID of
        Ret (st, rid, this1, sy1) \<Rightarrow> if st = OK then nexts env ks this1 sy1 else None
      | NullDeref \<Rightarrow> None
      | NoFuel \<Rightarrow> None)"

text \<open>
  One iteration of the loop of \<open>scanNext\<close>: \<open>Inl\<close> where the iteration returns, \<open>Inr\<close>
  with the next state where it goes round again (lemma \<open>scanNext_step\<close> below).
\<close>

definition scan_step ::
  "('w, 'f, 'p) Env \<Rightarrow> ('f, 'p) HeapFileScan \<Rightarrow> ('w, 'f, 'p) Sys \<Rightarrow> RID
     \<Rightarrow> (Status \<times> RID \<times> ('f, 'p) HeapFileScan \<times> ('w, 'f, 'p) Sys) Run +
        ('f, 'p) HeapFileScan \<times> ('w, 'f, 'p) Sys" where
  "scan_step env this sy outRid =
     (case curPage this of
        None \<Rightarrow> Inl NullDeref
      | Some cp \<Rightarrow>
          (case (if pageNo (curRec this) = -1 \<and> slotNo (curRec this) = -1
                 then page_firstRecord env cp sy
                 else page_nextRecord env cp (curRec this) sy) of
             (status, nextRid, sy1) \<Rightarrow>
               if status = NORECORDS \<or> status = ENDOFPAGE then
                 (case unPinPage env (filePtr this) (curPageNo this) (curDirtyFlag this) sy1 of
                    (status, sy2) \<Rightarrow>
                      if status \<noteq> OK then Inl (Ret (status, outRid, this, sy2)) else
                      (case page_getNextPage env cp sy2 of
                         (status, nextPageNo, sy3) \<Rightarrow>
                           if status \<noteq> OK then Inl (Ret (status, outRid, this, sy3)) else
                           if nextPageNo = -1
                           then Inl (Ret (NOMORERECS, outRid, this\<lparr>curPage := None\<rparr>, sy3))
                           else
                             (case readPage env (filePtr this) nextPageNo sy3 of
                                (status, page, sy4) \<Rightarrow>
                                  if status \<noteq> OK then Inl (Ret (status, outRid, this, sy4))
                                  else
                                    Inr (this\<lparr>curPage := Some page, curPageNo := nextPageNo,
                                              curRec := NULLRID, curDirtyFlag := False\<rparr>,
                                         sy4))))
               else if status \<noteq> OK then Inl (Ret (status, outRid, this, sy1))
               else
                 (case page_getRecord env cp nextRid sy1 of
                    (status, rec, sy2) \<Rightarrow>
                      if status \<noteq> OK then Inl (Ret (status, outRid, this, sy2)) else
                      if matchRec env this rec
                      then Inl (Ret (OK, nextRid, this\<lparr>curRec := nextRid\<rparr>, sy2))
                      else Inr (this\<lparr>curRec := nextRid\<rparr>, sy2))))"

text \<open>
  A scan in progress on the reference collaborators: its current page is the page with
  the number \<open>curPageNo\<close> of its file, that page exists and is pinned, and the pool holds
  no more pinned pages than it has frames.
\<close>

definition in_progress ::
  "(string, string \<times> int) HeapFileScan \<Rightarrow> (RefWorld, string, string \<times> int) Sys \<Rightarrow> bool" where
  "in_progress this sy =
     (curPage this = Some (filePtr this, curPageNo this) \<and>
      ref_page (world sy) (filePtr this, curPageNo this) \<noteq> None \<and>
      (filePtr this, curPageNo this) \<in> set (rw_pins (world sy)) \<and>
      length (remdups (rw_pins (world sy))) \<le> rw_numBufs (world sy))"

text \<open>What a call of \<open>scanNext\<close> leaves alone: the file, the filter, the mark, the pages of
  the database, the size of the pool, and the pins other than the one on the current
  page.\<close>

definition keeps ::
  "(string, string \<times> int) HeapFileScan \<Rightarrow> (RefWorld, string, string \<times> int) Sys \<Rightarrow>
   (string, string \<times> int) HeapFileScan \<Rightarrow> (RefWorld, string, string \<times> int) Sys \<Rightarrow> bool" where
  "keeps this sy this1 sy1 =
     (filePtr this1 = filePtr this \<and> offset this1 = offset this \<and>
      length_s this1 = length_s this \<and> type_s this1 = type_s this \<and>
      filter_s this1 = filter_s this \<and> op_s this1 = op_s this \<and>
      markedPageNo this1 = markedPageNo this \<and> markedRec this1 = markedRec this \<and>
      rw_files (world sy1) = rw_files (world sy) \<and>
      rw_numBufs (world sy1) = rw_numBufs (world sy) \<and>
      mset (rw_pins (world sy1)) - {#(filePtr this1, curPageNo this1)#} =
      mset (rw_pins (world sy)) - {#(filePtr this, curPageNo this)#})"

text \<open>Two scans that stand at the same place of the same database, with the same filter
  and the same pages pinned.\<close>

definition same_view ::
  "(string, string \<times> int) HeapFileScan \<Rightarrow> (RefWorld, string, string \<times> int) Sys \<Rightarrow>
   (string, string \<times> int) HeapFileScan \<Rightarrow> (RefWorld, string, string \<times> int) Sys \<Rightarrow> bool" where
  "same_view this sy this1 sy1 =
     (curPage this1 = curPage this \<and> curPageNo this1 = curPageNo this \<and>
      curRec this1 = curRec this \<and> filePtr this1 = filePtr this \<and>
      offset this1 = offset this \<and> length_s this1 = length_s this \<and>
      type_s this1 = type_s this \<and> filter_s this1 = filter_s this \<and>
      op_s this1 = op_s this \<and>
      rw_files (world sy1) = rw_files (world sy) \<and>
      rw_numBufs (world sy1) = rw_numBufs (world sy) \<and>
      mset (rw_pins (world sy1)) = mset (rw_pins (world sy)))"

section \<open>The pages of a file\<close>

text \<open>The number of pages allocated to a file so far (the reference file layer never
  gives a page back), and the pages on the chain that starts at page \<open>n\<close>, followed for at
  most \<open>k\<close> links.\<close>

definition allocated :: "(RefWorld, string, string \<times> int) Sys \<Rightarrow> string \<Rightarrow> int option" where
  "allocated sy name = map_option (\<lambda>pgs. int (length pgs)) (rw_files (world sy) name)"

fun chain :: "RefWorld \<Rightarrow> string \<Rightarrow> nat \<Rightarrow> int \<Rightarrow> int list" where
  "chain w name 0 n = []"
| "chain w name (Suc k) n =
     (if n = -1 then []
      else (case ref_page w (name, n) of
              None \<Rightarrow> []
            | Some pg \<Rightarrow> n # chain w name k (rp_next pg)))"


section \<open>Properties\<close>

subsection \<open>Arithmetic helpers\<close>

lemma wrap32_id: "- (2 ^ 31) \<le> i \<Longrightarrow> i < 2 ^ 31 \<Longrightarrow> wrap32 i = i"
  unfolding wrap32_def
  by (simp add: signed_take_bit_int_eq_self sint_sbintrunc')

lemma u32_id: "0 \<le> i \<Longrightarrow> i < 2 ^ 32 \<Longrightarrow> u32 i = i"
  by (simp add: u32_def)

subsection \<open>Unfolding the collaborator calls\<close>

lemmas ref_defs = ref_env_def ref_openFile_def ref_createFile_def ref_closeFile_def
  ref_getFirstPage_def ref_allocPage_def ref_readPage_def ref_unPinPage_def ref_init_def
  ref_getRecord_def ref_insertRecord_def ref_deleteRecord_def ref_firstRecord_def
  ref_nextRecord_def ref_getNextPage_def ref_setNextPage_def ref_page_def ref_put_def
  pool_full_def slot_ok_def slot_from_def used_def ref_PAGESIZE_def ref_DPFIXED_def
  ref_slot_size_def

lemmas call_defs = openFile_def createFile_def closeFile_def getFirstPage_def allocPage_def
  readPage_def unPinPage_def page_init_def page_getRecord_def page_insertRecord_def
  page_deleteRecord_def page_firstRecord_def page_nextRecord_def page_getNextPage_def
  page_setNextPage_def emit_def hdr_upd_def

subsection \<open>startScan\<close>

text \<open>
  C5. With a filter, \<open>startScan\<close> returns \<open>BADSCANPARM\<close> exactly when the offset is
  negative, or the length is below 1, or the type is none of STRING, INTEGER, FLOAT, or
  the type is INTEGER and the length is not the width of an \<^verbatim>\<open>int\<close>, or the type is FLOAT
  and the length is not the width of a \<^verbatim>\<open>float\<close>, or the operator is none of the six
  comparisons; the object is then unchanged. Otherwise it returns \<open>OK\<close> and has stored the
  five filter fields. Without a filter it returns \<open>OK\<close>, filtering is off, and every
  record matches.
\<close>

theorem startScan_validates:
  "fst (startScan this off len ty (Some fl) opr) =
     (if off < 0 \<or> len < 1 \<or> ty \<notin> {STRING, INTEGER, FLOAT} \<or>
         (ty = INTEGER \<and> len \<noteq> sizeof_int) \<or> (ty = FLOAT \<and> len \<noteq> sizeof_float) \<or>
         opr \<notin> {LT, LTE, EQ, GTE, GT, NE}
      then BADSCANPARM else OK) \<and>
   snd (startScan this off len ty (Some fl) opr) =
     (if fst (startScan this off len ty (Some fl) opr) = BADSCANPARM then this
      else this\<lparr>offset := off, length_s := len, type_s := ty, filter_s := Some fl,
                op_s := opr\<rparr>) \<and>
   startScan this off' len' ty' None opr' = (OK, this\<lparr>filter_s := None\<rparr>) \<and>
   matchRec env (snd (startScan this off' len' ty' None opr')) rec"
  by (auto simp: startScan_def matchRec_def)

theorem startScan_validates_witness:
  "\<forall>fd. startScan raw_scan 0 4 INTEGER (Some [5, 0, 0, 0]) EQ =
       (OK, raw_scan\<lparr>offset := 0, length_s := 4, type_s := INTEGER,
                      filter_s := Some [5, 0, 0, 0], op_s := EQ\<rparr>) \<and>
     startScan raw_scan 0 3 INTEGER (Some [5, 0, 0, 0]) EQ = (BADSCANPARM, raw_scan) \<and>
     startScan raw_scan 0 4 INTEGER (Some [5, 0, 0, 0]) (BadOperator 7) =
       (BADSCANPARM, raw_scan) \<and>
     startScan raw_scan 0 3 INTEGER None EQ = (OK, raw_scan\<lparr>filter_s := None\<rparr>) \<and>
     matchRec (ref_env fd) (snd (startScan raw_scan 0 3 INTEGER None EQ)) (rec4 1)"
  (is "\<forall>fd. ?P fd")
proof
  fix fd
  show "?P fd"
    using startScan_validates [of raw_scan 0 4 INTEGER "[5, 0, 0, 0]" EQ 0 3 INTEGER EQ "ref_env fd" "rec4 1"]
      startScan_validates [of raw_scan 0 3 INTEGER "[5, 0, 0, 0]" EQ 0 3 INTEGER EQ "ref_env fd" "rec4 1"]
      startScan_validates [of raw_scan 0 4 INTEGER "[5, 0, 0, 0]" "BadOperator 7" 0 3 INTEGER EQ "ref_env fd" "rec4 1"]
    by (simp add: sizeof_int_def prod_eq_iff)
qed

subsection \<open>matchRec on INTEGER fields\<close>

text \<open>Where the difference of the two integers fits into an \<^verbatim>\<open>int\<close>, the operator is applied
  to the sign of the exact difference.\<close>

lemma matchRec_INTEGER_in_range:
  assumes "filter_s this = Some fl" and "type_s this = INTEGER"
    and "0 \<le> offset this" and "1 \<le> length_s this"
    and "offset this + length_s this - 1 < length' rec" and "length' rec < 2 ^ 31"
    and "- (2 ^ 31) \<le> int_of_bytes (window (data rec) (offset this) (length_s this)) -
                       int_of_bytes (window fl 0 (length_s this))"
    and "int_of_bytes (window (data rec) (offset this) (length_s this)) -
         int_of_bytes (window fl 0 (length_s this)) < 2 ^ 31"
  shows "matchRec env this rec =
     (let d = int_of_bytes (window (data rec) (offset this) (length_s this)) -
              int_of_bytes (window fl 0 (length_s this))
      in case op_s this of
           LT \<Rightarrow> d < 0 | LTE \<Rightarrow> d \<le> 0 | EQ \<Rightarrow> d = 0 | GTE \<Rightarrow> d \<ge> 0 | GT \<Rightarrow> d > 0
         | NE \<Rightarrow> d \<noteq> 0 | BadOperator k \<Rightarrow> False)"
proof -
  have a: "wrap32 (offset this + length_s this) = offset this + length_s this"
    using assms by (intro wrap32_id) auto
  have b: "wrap32 (offset this + length_s this - 1) = offset this + length_s this - 1"
    using assms by (intro wrap32_id) auto
  have c: "wrap32 (int_of_bytes (window (data rec) (offset this) (length_s this)) -
                   int_of_bytes (window fl 0 (length_s this))) =
           int_of_bytes (window (data rec) (offset this) (length_s this)) -
           int_of_bytes (window fl 0 (length_s this))"
    using assms by (intro wrap32_id) auto
  show ?thesis
    using assms(1,2,5)
    by (auto simp: matchRec_def a b c float_of_int_def Let_def split: Operator.splits)
qed

lemma int_of_bytes_max: "int_of_bytes (window [255, 255, 255, 127] 0 4) = 2147483647"
  by (simp add: int_of_bytes_def window_def le_nat_def wrap32_def)

lemma int_of_bytes_minus_one: "int_of_bytes (window [255, 255, 255, 255] 0 4) = - 1"
  by (simp add: int_of_bytes_def window_def le_nat_def wrap32_def)

text \<open>
  C6. The claim: on an INTEGER predicate whose window lies within the record, \<open>matchRec\<close>
  applies the operator to the sign of the exact difference attribute - filter. The code
  subtracts in \<^verbatim>\<open>int\<close>. For the attribute 2147483647 and the filter -1 the exact difference
  is 2147483648, positive, but the \<^verbatim>\<open>int\<close> difference wraps to -2147483648: \<open>GT\<close> does not
  match and \<open>LT\<close> does.
\<close>

theorem matchRec_INTEGER_overflow:
  "int_of_bytes (window [255, 255, 255, 127] 0 4) -
     int_of_bytes (window [255, 255, 255, 255] 0 4) > 0 \<and>
   matchRec env (snd (startScan raw_scan 0 4 INTEGER (Some [255, 255, 255, 255]) GT))
      \<lparr>data = [255, 255, 255, 127], length' = 4\<rparr> = False \<and>
   matchRec env (snd (startScan raw_scan 0 4 INTEGER (Some [255, 255, 255, 255]) LT))
      \<lparr>data = [255, 255, 255, 127], length' = 4\<rparr> = True"
  by (simp add: matchRec_def startScan_def raw_scan_def sizeof_int_def int_of_bytes_max
      int_of_bytes_minus_one wrap32_def float_of_int_def)

subsection \<open>insertRecord: a record that is too long\<close>

text \<open>
  C7. A record whose length exceeds the greatest payload of a page, \<open>PAGESIZE - DPFIXED\<close>,
  is refused with \<open>INVALIDRECLEN\<close>: the object, the headers, the collaborators' world and
  the list of calls are what they were, so no page was allocated and no page-level insert
  was tried. (\<open>length' rec < 2 ^ 31\<close> says that the length is an \<^verbatim>\<open>int\<close>.)
\<close>

theorem insertRecord_too_long:
  assumes "0 \<le> PAGESIZE env - DPFIXED env"
    and "PAGESIZE env - DPFIXED env < length' rec"
    and "length' rec < 2 ^ 31"
  shows "insertRecord env this sy rec outRid = Ret (INVALIDRECLEN, outRid, this, sy)"
proof -
  have "u32 (length' rec) = length' rec"
    using assms by (intro u32_id) auto
  moreover have "u32 (PAGESIZE env - DPFIXED env) = PAGESIZE env - DPFIXED env"
    using assms by (intro u32_id) auto
  ultimately show ?thesis
    using assms by (simp add: insertRecord_def)
qed

theorem insertRecord_too_long_witness:
  "\<forall>fd. 0 \<le> PAGESIZE (ref_env fd) - DPFIXED (ref_env fd) \<and>
     PAGESIZE (ref_env fd) - DPFIXED (ref_env fd) < length' \<lparr>data = replicate 13 0, length' = 13\<rparr> \<and>
     length' \<lparr>data = replicate 13 0, length' = 13\<rparr> < (2 :: int) ^ 31 \<and>
     insertRecord (ref_env fd) raw_hf (init_sys 2) \<lparr>data = replicate 13 0, length' = 13\<rparr> NULLRID =
       Ret (INVALIDRECLEN, NULLRID, raw_hf, init_sys 2)"
  (is "\<forall>fd. ?P fd")
proof
  fix fd
  show "?P fd"
  proof -
    have a: "0 \<le> PAGESIZE (ref_env fd) - DPFIXED (ref_env fd)"
      by (simp add: ref_env_def ref_PAGESIZE_def ref_DPFIXED_def)
    have b: "PAGESIZE (ref_env fd) - DPFIXED (ref_env fd) < length' \<lparr>data = replicate 13 0, length' = 13\<rparr>"
      by (simp add: ref_env_def ref_PAGESIZE_def ref_DPFIXED_def)
    have c: "length' \<lparr>data = replicate 13 0, length' = 13\<rparr> < (2 :: int) ^ 31"
      by simp
    show ?thesis
      using a b c insertRecord_too_long [OF a b c, of raw_hf "init_sys 2" NULLRID] by simp
  qed
qed

subsection \<open>deleteRecord\<close>

text \<open>
  C10. \<open>deleteRecord\<close> on a scan with a current page returns the status of the page-level
  delete, whatever it is, and in every case sets both dirty flags and decrements the
  header's record count, an \<^verbatim>\<open>int\<close>: the new count is one below the old one wherever the
  old one is above the least \<^verbatim>\<open>int\<close>. The world is the one the page-level delete left. So
  when the page-level delete fails and removes nothing, the count is one below what it was.
\<close>

theorem deleteRecord_unconditional:
  assumes "curPage this = Some cp"
  shows "\<exists>sy'. deleteRecord env this sy =
            Ret (fst (pg_deleteRecord env cp (curRec this) (world sy)),
                 this\<lparr>curDirtyFlag := True, hdrDirtyFlag := True\<rparr>, sy') \<and>
          recCnt (hdrs sy' (headerPage this)) =
            wrap32 (recCnt (hdrs sy (headerPage this)) - 1) \<and>
          (- (2 ^ 31) < recCnt (hdrs sy (headerPage this)) \<and>
           recCnt (hdrs sy (headerPage this)) < 2 ^ 31 \<longrightarrow>
             recCnt (hdrs sy' (headerPage this)) = recCnt (hdrs sy (headerPage this)) - 1) \<and>
          world sy' = snd (pg_deleteRecord env cp (curRec this) (world sy))"
  using assms
  by (auto simp: deleteRecord_def page_deleteRecord_def hdr_upd_def emit_def Let_def wrap32_id
      split: prod.splits)

theorem deleteRecord_unconditional_witness:
  "\<forall>fd. curPage (scan_t1 2 NULLRID) = Some (''t1'', 2) \<and>
     (\<exists>sy'. deleteRecord (ref_env fd) (scan_t1 2 NULLRID) (sys_t1 2) =
              Ret (INVALIDSLOT,
                   (scan_t1 2 NULLRID)\<lparr>curDirtyFlag := True, hdrDirtyFlag := True\<rparr>, sy') \<and>
            recCnt (hdrs (sys_t1 2) (''t1'', 1)) = 4 \<and>
            recCnt (hdrs sy' (''t1'', 1)) = 3 \<and>
            world sy' = world (sys_t1 2)) \<and>
     (\<exists>sy'. deleteRecord (ref_env fd) (scan_t1 2 NULLRID)
                (hdr_upd (''t1'', 1) (\<lambda>h. h\<lparr>recCnt := - 2147483648\<rparr>) (sys_t1 2)) =
              Ret (INVALIDSLOT,
                   (scan_t1 2 NULLRID)\<lparr>curDirtyFlag := True, hdrDirtyFlag := True\<rparr>, sy') \<and>
            recCnt (hdrs sy' (''t1'', 1)) = 2147483647)"
  (is "\<forall>fd. ?P fd")
proof
  fix fd
  show "?P fd"
  proof -
    let ?low = "hdr_upd (''t1'', 1) (\<lambda>h. h\<lparr>recCnt := - 2147483648\<rparr>) (sys_t1 2)"
    have a: "curPage (scan_t1 2 NULLRID) = Some (''t1'', 2)"
      by (simp add: scan_t1_def)
    have b: "pg_deleteRecord (ref_env fd) (''t1'', 2) (curRec (scan_t1 2 NULLRID)) (world (sys_t1 2)) =
             (INVALIDSLOT, world (sys_t1 2))"
      by (simp add: ref_env_def ref_deleteRecord_def ref_page_def slot_ok_def scan_t1_def
          sys_t1_def NULLRID_def)
    have c: "headerPage (scan_t1 2 NULLRID) = (''t1'', 1)"
      by (simp add: scan_t1_def)
    have d: "recCnt (hdrs (sys_t1 2) (''t1'', 1)) = 4"
      by (simp add: sys_t1_def hdr_t1_def)
    have e: "world ?low = world (sys_t1 2)" "recCnt (hdrs ?low (''t1'', 1)) = - 2147483648"
      by (simp_all add: hdr_upd_def)
    have w: "wrap32 (- 2147483648 - 1) = 2147483647"
      by (simp add: wrap32_def)
    have "\<exists>sy'. deleteRecord (ref_env fd) (scan_t1 2 NULLRID) (sys_t1 2) =
              Ret (INVALIDSLOT,
                   (scan_t1 2 NULLRID)\<lparr>curDirtyFlag := True, hdrDirtyFlag := True\<rparr>, sy') \<and>
            recCnt (hdrs (sys_t1 2) (''t1'', 1)) = 4 \<and>
            recCnt (hdrs sy' (''t1'', 1)) = 3 \<and>
            world sy' = world (sys_t1 2)"
      using a d deleteRecord_unconditional [OF a, of "ref_env fd" "sys_t1 2"]
      by (auto simp: b c)
    moreover have "\<exists>sy'. deleteRecord (ref_env fd) (scan_t1 2 NULLRID) ?low =
              Ret (INVALIDSLOT,
                   (scan_t1 2 NULLRID)\<lparr>curDirtyFlag := True, hdrDirtyFlag := True\<rparr>, sy') \<and>
            recCnt (hdrs sy' (''t1'', 1)) = 2147483647"
      using deleteRecord_unconditional [OF a, of "ref_env fd" ?low]
      unfolding e c b w by auto
    ultimately show ?thesis
      using a by blast
  qed
qed

subsection \<open>HeapFile::getRecord: a failed read after a change of page\<close>

text \<open>
  C1. The claim: when \<open>getRecord\<close> has changed the current page and the read of the record
  then fails, it unpins the page it has just pinned and returns the failure of the read.
  The code returns that failure, but it does not unpin: the test before the unpin,
  \<^verbatim>\<open>curPageNo != rid.pageNo\<close>, is made after \<open>curPageNo\<close> was set to \<open>rid.pageNo\<close> and is
  never true. The calls made are the unpin of the old page, the pin of the new one and the
  read, and the new page stays the current page, pinned.
\<close>

theorem getRecord_failed_read_keeps_pin:
  assumes "curPage this = Some cp" and "curPageNo this \<noteq> pageNo rid"
    and "buf_unPinPage env (filePtr this) (curPageNo this) (curDirtyFlag this) (world sy) =
         (OK, w1)"
    and "buf_readPage env (filePtr this) (pageNo rid) w1 = (OK, page, w2)"
    and "pg_getRecord env page rid w2 = (st, r)" and "st \<noteq> OK"
  shows "HeapFile_getRecord env this sy rid rec =
     (st, rec, this\<lparr>curPage := Some page, curPageNo := pageNo rid, curDirtyFlag := False\<rparr>,
      sy\<lparr>world := w2,
         trace := trace sy @
           [UnPinPage (filePtr this) (curPageNo this) (curDirtyFlag this) OK,
            ReadPage (filePtr this) (pageNo rid) OK page,
            PageCall page (PGetRecord rid) st]\<rparr>)"
  using assms
  by (simp add: HeapFile_getRecord_def unPinPage_def readPage_def page_getRecord_def emit_def)

theorem getRecord_failed_read_keeps_pin_witness:
  "\<forall>fd. curPage (scan_t1 2 NULLRID) = Some (''t1'', 2) \<and>
     curPageNo (scan_t1 2 NULLRID) \<noteq> pageNo \<lparr>pageNo = 3, slotNo = 5\<rparr> \<and>
     HeapFile_getRecord (ref_env fd) (scan_t1 2 NULLRID) (sys_t1 2) \<lparr>pageNo = 3, slotNo = 5\<rparr>
         dummy_rec =
       (INVALIDSLOT, dummy_rec,
        (scan_t1 2 NULLRID)\<lparr>curPage := Some (''t1'', 3), curPageNo := 3, curDirtyFlag := False\<rparr>,
        (sys_t1 2)\<lparr>world := world (sys_t1 3),
           trace := [UnPinPage ''t1'' 2 False OK, ReadPage ''t1'' 3 OK (''t1'', 3),
                     PageCall (''t1'', 3) (PGetRecord \<lparr>pageNo = 3, slotNo = 5\<rparr>) INVALIDSLOT]\<rparr>) \<and>
     rw_pins (world (sys_t1 3)) = [(''t1'', 3), (''t1'', 1)]"
  (is "\<forall>fd. ?P fd")
proof
  fix fd
  show "?P fd"
  proof -
    let ?s = "scan_t1 2 NULLRID" and ?rid = "\<lparr>pageNo = 3, slotNo = 5\<rparr>"
    have a: "curPage ?s = Some (''t1'', 2)"
      by (simp add: scan_t1_def)
    have b: "curPageNo ?s \<noteq> pageNo ?rid"
      by (simp add: scan_t1_def)
    have c: "buf_unPinPage (ref_env fd) (filePtr ?s) (curPageNo ?s) (curDirtyFlag ?s)
               (world (sys_t1 2)) = (OK, (world (sys_t1 2))\<lparr>rw_pins := [(''t1'', 1)]\<rparr>)"
      by (simp add: ref_env_def ref_unPinPage_def scan_t1_def sys_t1_def)
    have d: "buf_readPage (ref_env fd) (filePtr ?s) (pageNo ?rid)
               ((world (sys_t1 2))\<lparr>rw_pins := [(''t1'', 1)]\<rparr>) =
             (OK, (''t1'', 3), world (sys_t1 3))"
      by (simp add: ref_env_def ref_readPage_def ref_page_def pool_full_def scan_t1_def
          sys_t1_def)
    have e: "pg_getRecord (ref_env fd) (''t1'', 3) ?rid (world (sys_t1 3)) =
             (INVALIDSLOT, dummy_rec)"
      by (simp add: ref_env_def ref_getRecord_def ref_page_def slot_ok_def sys_t1_def page3_def)
    have f: "INVALIDSLOT \<noteq> OK"
      by simp
    show ?thesis
      using a b getRecord_failed_read_keeps_pin [OF a b c d e f, of dummy_rec]
      by (simp add: scan_t1_def sys_t1_def)
  qed
qed

subsection \<open>scanNext: the next-page pointer is read after the unpin\<close>

text \<open>
  C3. The claim: \<open>scanNext\<close> never goes through the handle of a page after it has unpinned
  that page, and in particular does not read the next-page pointer through it. The code
  unpins the exhausted page first and calls \<^verbatim>\<open>curPage->getNextPage\<close> afterwards. Where the
  fetch reports the end of the page, the unpin succeeds and the page is the last of the
  chain, the calls are the fetch, the unpin and then \<open>getNextPage\<close> through the handle of
  the page just unpinned.
\<close>

theorem scanNext_reads_unpinned_page:
  assumes "curPage this = Some cp"
    and "(if pageNo (curRec this) = -1 \<and> slotNo (curRec this) = -1
          then pg_firstRecord env cp (world sy)
          else pg_nextRecord env cp (curRec this) (world sy)) = (st0, rid0)"
    and "st0 = NORECORDS \<or> st0 = ENDOFPAGE"
    and "buf_unPinPage env (filePtr this) (curPageNo this) (curDirtyFlag this) (world sy) =
         (OK, w1)"
    and "pg_getNextPage env cp w1 = (OK, -1)"
  shows "\<exists>ev. scanNext env (Suc n) this sy outRid =
           Ret (NOMORERECS, outRid, this\<lparr>curPage := None\<rparr>,
                sy\<lparr>world := w1,
                   trace := trace sy @
                     [ev, UnPinPage (filePtr this) (curPageNo this) (curDirtyFlag this) OK,
                      PageCall cp PGetNextPage OK]\<rparr>) \<and>
         stale_calls [(filePtr this, curPageNo this, cp)]
           [ev, UnPinPage (filePtr this) (curPageNo this) (curDirtyFlag this) OK,
            PageCall cp PGetNextPage OK] = [PageCall cp PGetNextPage OK]"
  using assms
  by (auto simp: page_firstRecord_def page_nextRecord_def unPinPage_def page_getNextPage_def
      emit_def split: if_splits)

theorem scanNext_reads_unpinned_page_witness:
  "\<forall>fd. curPage (scan_t1 3 \<lparr>pageNo = 3, slotNo = 1\<rparr>) = Some (''t1'', 3) \<and>
     (\<exists>ev. scanNext (ref_env fd) (Suc 0) (scan_t1 3 \<lparr>pageNo = 3, slotNo = 1\<rparr>) (sys_t1 3) NULLRID =
             Ret (NOMORERECS, NULLRID, (scan_t1 3 \<lparr>pageNo = 3, slotNo = 1\<rparr>)\<lparr>curPage := None\<rparr>,
                  (sys_t1 3)\<lparr>world := (world (sys_t1 3))\<lparr>rw_pins := [(''t1'', 1)]\<rparr>,
                     trace := [ev, UnPinPage ''t1'' 3 False OK,
                               PageCall (''t1'', 3) PGetNextPage OK]\<rparr>) \<and>
           stale_calls [(''t1'', 3, (''t1'', 3))]
             [ev, UnPinPage ''t1'' 3 False OK, PageCall (''t1'', 3) PGetNextPage OK] =
           [PageCall (''t1'', 3) PGetNextPage OK])"
  (is "\<forall>fd. ?P fd")
proof
  fix fd
  show "?P fd"
  proof -
    let ?s = "scan_t1 3 \<lparr>pageNo = 3, slotNo = 1\<rparr>"
    have a: "curPage ?s = Some (''t1'', 3)"
      by (simp add: scan_t1_def)
    have b: "(if pageNo (curRec ?s) = -1 \<and> slotNo (curRec ?s) = -1
              then pg_firstRecord (ref_env fd) (''t1'', 3) (world (sys_t1 3))
              else pg_nextRecord (ref_env fd) (''t1'', 3) (curRec ?s) (world (sys_t1 3))) =
             (ENDOFPAGE, NULLRID)"
      by (simp add: ref_env_def ref_nextRecord_def ref_page_def slot_from_def scan_t1_def
          sys_t1_def page3_def)
    have c: "ENDOFPAGE = NORECORDS \<or> ENDOFPAGE = ENDOFPAGE"
      by simp
    have d: "buf_unPinPage (ref_env fd) (filePtr ?s) (curPageNo ?s) (curDirtyFlag ?s)
               (world (sys_t1 3)) = (OK, (world (sys_t1 3))\<lparr>rw_pins := [(''t1'', 1)]\<rparr>)"
      by (simp add: ref_env_def ref_unPinPage_def scan_t1_def sys_t1_def)
    have e: "pg_getNextPage (ref_env fd) (''t1'', 3) ((world (sys_t1 3))\<lparr>rw_pins := [(''t1'', 1)]\<rparr>) =
             (OK, -1)"
      by (simp add: ref_env_def ref_getNextPage_def ref_page_def sys_t1_def page3_def)
    show ?thesis
      using a scanNext_reads_unpinned_page [OF a b c d e, of 0 NULLRID]
      by (simp add: scan_t1_def sys_t1_def)
  qed
qed


subsection \<open>insertRecord: growth of the file\<close>

text \<open>
  C4, as stated: whenever the current page reports no space for a record that is not
  too long, one page is allocated, \<open>pageCnt\<close> grows by exactly one, and so on. This fails
  in two ways. Where the buffer pool has no frame left, \<open>allocPage\<close> returns
  \<open>BUFFEREXCEEDED\<close>, and \<open>insertRecord\<close> passes that on with no page allocated, the header
  as it was and no RID returned. And \<open>pageCnt\<close> is an \<^verbatim>\<open>int\<close>: where it holds the greatest
  \<^verbatim>\<open>int\<close>, the insert succeeds on a new page and the increment wraps around to the least.
\<close>

theorem insertRecord_growth_counterexample:
  "\<forall>fd. 0 \<le> length' (rec4 5) \<and>
     length' (rec4 5) \<le> PAGESIZE (ref_env fd) - DPFIXED (ref_env fd) \<and>
     curPage (ins_t1 3) = Some (''t1'', 3) \<and>
     fst (pg_insertRecord (ref_env fd) (''t1'', 3) (rec4 5) (world (sys_t1_full 3))) = NOSPACE \<and>
     insertRecord (ref_env fd) (ins_t1 3) (sys_t1_full 3) (rec4 5) NULLRID =
       Ret (BUFFEREXCEEDED, NULLRID, ins_t1 3,
            (sys_t1_full 3)\<lparr>trace :=
               [PageCall (''t1'', 3) (PInsertRecord (rec4 5)) NOSPACE,
                AllocPage ''t1'' BUFFEREXCEEDED 0 (''t1'', 0)]\<rparr>) \<and>
     fst (pg_insertRecord (ref_env fd) (''t1'', 3) (rec4 5) (world (sys_t1 3))) = NOSPACE \<and>
     (\<exists>this' sy'.
        insertRecord (ref_env fd) (ins_t1 3)
            (hdr_upd (''t1'', 1) (\<lambda>h. h\<lparr>pageCnt := 2147483647\<rparr>) (sys_t1 3)) (rec4 5) NULLRID =
          Ret (OK, \<lparr>pageNo = 4, slotNo = 0\<rparr>, this', sy') \<and>
        pageCnt (hdrs sy' (''t1'', 1)) = - 2147483648)"
  (is "\<forall>fd. ?P fd")
proof
  fix fd
  have w: "wrap32 2147483648 = - 2147483648"
    by (simp add: wrap32_def)
  show "?P fd"
    by (simp add: insertRecord_def ins_t1_def sys_t1_full_def sys_t1_def ref_defs call_defs
        u32_def rec4_def page2_def page3_def hdr_upd_def hdr_t1_def blank_page_def w)
qed

text \<open>
  C4, amended: when the current page reports no space for a record that is not too long,
  and \<open>allocPage\<close>, \<open>setNextPage\<close> on the old current page, the unpin of the old current page
  and the insert on the new page return \<open>OK\<close>, then \<open>insertRecord\<close> returns \<open>OK\<close>. The calls
  made are the failed insert, one \<open>allocPage\<close>, the \<open>init\<close> of the new page, \<open>setNextPage\<close>
  on the old current page with the number of the new page, the unpin of the old page as
  dirty and the insert on the new page. In the header \<open>lastPage\<close> is the new page and
  \<open>pageCnt\<close> and \<open>recCnt\<close> are incremented as \<^verbatim>\<open>int\<close>s: \<open>pageCnt\<close> has grown by exactly one
  wherever it was below the greatest \<^verbatim>\<open>int\<close>. The new page is the current page, and the RID
  returned is the one the insert on the new page gave.
\<close>

theorem insertRecord_growth:
  assumes "0 \<le> length' rec" and "length' rec \<le> PAGESIZE env - DPFIXED env"
    and "PAGESIZE env - DPFIXED env < 2 ^ 32"
    and "curPage this = Some cp"
    and "pg_insertRecord env cp rec (world sy) = (NOSPACE, rid1, w1)"
    and "buf_allocPage env (filePtr this) w1 = (OK, newPageNo, newPage, w2)"
    and "pg_setNextPage env cp newPageNo (pg_init env newPage newPageNo w2) = (OK, w4)"
    and "buf_unPinPage env (filePtr this) (curPageNo this) True w4 = (OK, w5)"
    and "pg_insertRecord env newPage rec w5 = (OK, rid, w7)"
  shows "\<exists>sy'.
           insertRecord env this sy rec outRid =
             Ret (OK, rid,
                  this\<lparr>hdrDirtyFlag := True, curPage := Some newPage, curPageNo := newPageNo,
                        curDirtyFlag := True\<rparr>, sy') \<and>
           world sy' = w7 \<and>
           trace sy' = trace sy @
             [PageCall cp (PInsertRecord rec) NOSPACE,
              AllocPage (filePtr this) OK newPageNo newPage,
              PageCall newPage (PInit newPageNo) OK,
              PageCall cp (PSetNextPage newPageNo) OK,
              UnPinPage (filePtr this) (curPageNo this) True OK,
              PageCall newPage (PInsertRecord rec) OK] \<and>
           hdrs sy' = (hdrs sy)(headerPage this := (hdrs sy (headerPage this))
              \<lparr>lastPage := newPageNo,
                pageCnt := wrap32 (pageCnt (hdrs sy (headerPage this)) + 1),
                recCnt := wrap32 (recCnt (hdrs sy (headerPage this)) + 1)\<rparr>) \<and>
           (- (2 ^ 31) \<le> pageCnt (hdrs sy (headerPage this)) \<and>
            pageCnt (hdrs sy (headerPage this)) < 2 ^ 31 - 1 \<longrightarrow>
              pageCnt (hdrs sy' (headerPage this)) = pageCnt (hdrs sy (headerPage this)) + 1)"
proof -
  have "u32 (length' rec) = length' rec"
    using assms(1-3) by (intro u32_id) auto
  moreover have "u32 (PAGESIZE env - DPFIXED env) = PAGESIZE env - DPFIXED env"
    using assms(1-3) by (intro u32_id) auto
  ultimately have ok: "\<not> u32 (length' rec) > u32 (PAGESIZE env - DPFIXED env)"
    using assms(2) by simp
  show ?thesis
    using ok assms(4-9)
    by (simp add: insertRecord_def page_insertRecord_def allocPage_def page_init_def
        page_setNextPage_def unPinPage_def emit_def hdr_upd_def Let_def wrap32_id)
qed

theorem insertRecord_growth_witness:
  "\<forall>fd. 0 \<le> length' (rec4 5) \<and>
     length' (rec4 5) \<le> PAGESIZE (ref_env fd) - DPFIXED (ref_env fd) \<and>
     PAGESIZE (ref_env fd) - DPFIXED (ref_env fd) < 2 ^ 32 \<and>
     curPage (ins_t1 3) = Some (''t1'', 3) \<and>
     (\<exists>w1 w2 w4 w5 w7 sy'.
        pg_insertRecord (ref_env fd) (''t1'', 3) (rec4 5) (world (sys_t1 3)) =
          (NOSPACE, NULLRID, w1) \<and>
        buf_allocPage (ref_env fd) (filePtr (ins_t1 3)) w1 = (OK, 4, (''t1'', 4), w2) \<and>
        pg_setNextPage (ref_env fd) (''t1'', 3) 4 (pg_init (ref_env fd) (''t1'', 4) 4 w2) =
          (OK, w4) \<and>
        buf_unPinPage (ref_env fd) (filePtr (ins_t1 3)) (curPageNo (ins_t1 3)) True w4 =
          (OK, w5) \<and>
        pg_insertRecord (ref_env fd) (''t1'', 4) (rec4 5) w5 =
          (OK, \<lparr>pageNo = 4, slotNo = 0\<rparr>, w7) \<and>
        insertRecord (ref_env fd) (ins_t1 3) (sys_t1 3) (rec4 5) NULLRID =
          Ret (OK, \<lparr>pageNo = 4, slotNo = 0\<rparr>,
               (ins_t1 4)\<lparr>hdrDirtyFlag := True, curDirtyFlag := True\<rparr>, sy') \<and>
        world sy' = w7 \<and>
        trace sy' =
          [PageCall (''t1'', 3) (PInsertRecord (rec4 5)) NOSPACE,
           AllocPage ''t1'' OK 4 (''t1'', 4),
           PageCall (''t1'', 4) (PInit 4) OK,
           PageCall (''t1'', 3) (PSetNextPage 4) OK,
           UnPinPage ''t1'' 3 True OK,
           PageCall (''t1'', 4) (PInsertRecord (rec4 5)) OK] \<and>
        hdrs sy' (''t1'', 1) =
          \<lparr>fileName = ''t1'', firstPage = 2, lastPage = 4, pageCnt = 4, recCnt = 5\<rparr> \<and>
        ref_page w7 (''t1'', 3) = Some (page3\<lparr>rp_next := 4\<rparr>) \<and>
        ref_page w7 (''t1'', 4) =
          Some \<lparr>rp_no = 4, rp_next = -1, rp_slots = [Some (rec4 5)]\<rparr> \<and>
        rw_pins w7 = [(''t1'', 4), (''t1'', 1)])"
  (is "\<forall>fd. ?P fd")
proof
  fix fd
  let ?e = "ref_env fd"
  define w1 where "w1 = snd (snd (pg_insertRecord ?e (''t1'', 3) (rec4 5) (world (sys_t1 3))))"
  define w2 where "w2 = snd (snd (snd (buf_allocPage ?e (filePtr (ins_t1 3)) w1)))"
  define w4 where "w4 = snd (pg_setNextPage ?e (''t1'', 3) 4 (pg_init ?e (''t1'', 4) 4 w2))"
  define w5 where
    "w5 = snd (buf_unPinPage ?e (filePtr (ins_t1 3)) (curPageNo (ins_t1 3)) True w4)"
  define w7 where "w7 = snd (snd (pg_insertRecord ?e (''t1'', 4) (rec4 5) w5))"
  note ev = ins_t1_def sys_t1_def ref_defs rec4_def page2_def page3_def hdr_t1_def
    blank_page_def NULLRID_def
  have a: "0 \<le> length' (rec4 5)"
    by (simp add: rec4_def)
  have b: "length' (rec4 5) \<le> PAGESIZE ?e - DPFIXED ?e"
    by (simp add: rec4_def ref_env_def ref_PAGESIZE_def ref_DPFIXED_def)
  have c: "PAGESIZE ?e - DPFIXED ?e < 2 ^ 32"
    by (simp add: ref_env_def ref_PAGESIZE_def ref_DPFIXED_def)
  have d: "curPage (ins_t1 3) = Some (''t1'', 3)"
    by (simp add: ins_t1_def)
  have e1: "pg_insertRecord ?e (''t1'', 3) (rec4 5) (world (sys_t1 3)) = (NOSPACE, NULLRID, w1)"
    unfolding w1_def by (simp add: ev)
  have e2: "buf_allocPage ?e (filePtr (ins_t1 3)) w1 = (OK, 4, (''t1'', 4), w2)"
    unfolding w2_def w1_def by (simp add: ev)
  have e4: "pg_setNextPage ?e (''t1'', 3) 4 (pg_init ?e (''t1'', 4) 4 w2) = (OK, w4)"
    unfolding w4_def w2_def w1_def by (simp add: ev)
  have e5: "buf_unPinPage ?e (filePtr (ins_t1 3)) (curPageNo (ins_t1 3)) True w4 = (OK, w5)"
    unfolding w5_def w4_def w2_def w1_def by (simp add: ev)
  have e7: "pg_insertRecord ?e (''t1'', 4) (rec4 5) w5 = (OK, \<lparr>pageNo = 4, slotNo = 0\<rparr>, w7)"
    unfolding w7_def w5_def w4_def w2_def w1_def by (simp add: ev)
  have f: "ref_page w7 (''t1'', 3) = Some (page3\<lparr>rp_next := 4\<rparr>)"
    "ref_page w7 (''t1'', 4) = Some \<lparr>rp_no = 4, rp_next = -1, rp_slots = [Some (rec4 5)]\<rparr>"
    "rw_pins w7 = [(''t1'', 4), (''t1'', 1)]"
    unfolding w7_def w5_def w4_def w2_def w1_def by (simp_all add: ev)
  have g: "(ins_t1 3)\<lparr>hdrDirtyFlag := True, curPage := Some (''t1'', 4), curPageNo := 4,
                       curDirtyFlag := True\<rparr> =
           (ins_t1 4)\<lparr>hdrDirtyFlag := True, curDirtyFlag := True\<rparr>"
    "filePtr (ins_t1 3) = ''t1''" "curPageNo (ins_t1 3) = 3" "headerPage (ins_t1 3) = (''t1'', 1)"
    "trace (sys_t1 3) = []"
    "hdrs (sys_t1 3) (''t1'', 1) =
       \<lparr>fileName = ''t1'', firstPage = 2, lastPage = 3, pageCnt = 3, recCnt = 4\<rparr>"
    by (simp_all add: ins_t1_def sys_t1_def hdr_t1_def)
  have h: "wrap32 4 = 4" "wrap32 5 = 5"
    by (simp_all add: wrap32_id)
  from insertRecord_growth [OF a b c d e1 e2 e4 e5 e7, of NULLRID]
  obtain sy' where
    "insertRecord ?e (ins_t1 3) (sys_t1 3) (rec4 5) NULLRID =
       Ret (OK, \<lparr>pageNo = 4, slotNo = 0\<rparr>,
            (ins_t1 4)\<lparr>hdrDirtyFlag := True, curDirtyFlag := True\<rparr>, sy')"
    "world sy' = w7"
    "trace sy' =
       [PageCall (''t1'', 3) (PInsertRecord (rec4 5)) NOSPACE,
        AllocPage ''t1'' OK 4 (''t1'', 4),
        PageCall (''t1'', 4) (PInit 4) OK,
        PageCall (''t1'', 3) (PSetNextPage 4) OK,
        UnPinPage ''t1'' 3 True OK,
        PageCall (''t1'', 4) (PInsertRecord (rec4 5)) OK]"
    "hdrs sy' (''t1'', 1) =
       \<lparr>fileName = ''t1'', firstPage = 2, lastPage = 4, pageCnt = 4, recCnt = 5\<rparr>"
    unfolding g by (auto simp: h)
  with a b c d e1 e2 e4 e5 e7 f show "?P fd"
    by blast
qed

subsection \<open>createHeapFile\<close>

lemma createHeapFile_exists:
  "fst (db_openFile env name (world sy)) = OK \<Longrightarrow>
   createHeapFile env name sy =
     (FILEEXISTS, sy\<lparr>world := snd (snd (db_openFile env name (world sy))),
                     trace := trace sy @ [OpenFile name OK]\<rparr>)"
  by (cases "db_openFile env name (world sy)")
    (simp add: createHeapFile_def openFile_def emit_def)

lemma hdr_written:
  "(h :: FileHdrPage)\<lparr>fileName := a, pageCnt := b, recCnt := c, firstPage := d, lastPage := e\<rparr> =
     \<lparr>fileName = a, firstPage = d, lastPage = e, pageCnt = b, recCnt = c\<rparr>"
  by (cases h) simp

lemma createHeapFile_success:
  assumes "db_openFile env name (world sy) = (st0, f0, w0)" and "st0 \<noteq> OK"
    and "db_createFile env name w0 = (OK, w1)"
    and "db_openFile env name w1 = (OK, f, w2)"
    and "buf_allocPage env f w2 = (OK, hno, hp, w3)"
    and "buf_allocPage env f w3 = (OK, dno, dp, w4)"
    and "buf_unPinPage env f hno True (pg_init env dp dno w4) = (OK, w5)"
    and "buf_unPinPage env f dno True w5 = (OK, w6)"
  shows "createHeapFile env name sy =
     (OK, sy\<lparr>world := w6,
             hdrs := (hdrs sy)(hp := \<lparr>fileName = c_name (MAXNAMESIZE env) name,
               firstPage = dno, lastPage = dno, pageCnt = 2, recCnt = 0\<rparr>),
             trace := trace sy @
               [OpenFile name st0, CreateFile name OK, OpenFile name OK,
                AllocPage f OK hno hp, AllocPage f OK dno dp, PageCall dp (PInit dno) OK,
                UnPinPage f hno True OK, UnPinPage f dno True OK]\<rparr>)"
  using assms
  by (simp add: createHeapFile_def openFile_def createFile_def allocPage_def page_init_def
      unPinPage_def emit_def hdr_upd_def Let_def hdr_written)

text \<open>
  C9, as stated: when no file of the name exists, \<open>createHeapFile\<close> creates the file and
  sets up its header with \<open>pageCnt = 2\<close>, \<open>recCnt = 0\<close> and the data page as first and last
  page. This fails where the buffer pool has a single frame: the file is created and the
  header page allocated, the second \<open>allocPage\<close> returns \<open>BUFFEREXCEEDED\<close>, and
  \<open>createHeapFile\<close> passes that on. The file then has one page, no data page, and
  \<open>firstPage\<close> and \<open>lastPage\<close> were never written.
\<close>

theorem createHeapFile_counterexample:
  "\<forall>fd. createHeapFile (ref_env fd) ''t1'' (init_sys 1) =
       (BUFFEREXCEEDED,
        \<lparr>world = \<lparr>rw_files = (\<lambda>name. None)(''t1'' := Some [blank_page]),
                  rw_pins = [(''t1'', 1)], rw_numBufs = 1\<rparr>,
         hdrs = (\<lambda>p. blank_hdr)
           ((''t1'', 1) :=
              \<lparr>fileName = ''t1'', firstPage = 0, lastPage = 0, pageCnt = 2, recCnt = 0\<rparr>),
         trace =
           [OpenFile ''t1'' UNIXERR, CreateFile ''t1'' OK, OpenFile ''t1'' OK,
            AllocPage ''t1'' OK 1 (''t1'', 1),
            AllocPage ''t1'' BUFFEREXCEEDED 0 (''t1'', 0)]\<rparr>)"
  (is "\<forall>fd. ?P fd")
proof
  fix fd
  show "?P fd"
    by (simp add: createHeapFile_def init_sys_def ref_defs call_defs c_name_def blank_hdr_def)
qed

text \<open>
  C9, amended. Where the file cannot be opened, and \<open>createFile\<close>, the open of the new
  file, both \<open>allocPage\<close> and both unpins return \<open>OK\<close>, \<open>createHeapFile\<close> returns \<open>OK\<close>. The
  calls made are the failed open, one \<open>createFile\<close>, the open, two \<open>allocPage\<close>, the \<open>init\<close>
  of the second page and the unpin of both pages as dirty, and the header written through
  the first page has \<open>pageCnt = 2\<close>, \<open>recCnt = 0\<close> and the number of the second page as
  \<open>firstPage\<close> and \<open>lastPage\<close>; no other header is touched. Where the file can be opened,
  the result is \<open>FILEEXISTS\<close> and the open is the only call made.
\<close>

theorem createHeapFile_creates_or_refuses:
  "(db_openFile env name (world sy) = (st0, f0, w0) \<and> st0 \<noteq> OK \<and>
    db_createFile env name w0 = (OK, w1) \<and>
    db_openFile env name w1 = (OK, f, w2) \<and>
    buf_allocPage env f w2 = (OK, hno, hp, w3) \<and>
    buf_allocPage env f w3 = (OK, dno, dp, w4) \<and>
    buf_unPinPage env f hno True (pg_init env dp dno w4) = (OK, w5) \<and>
    buf_unPinPage env f dno True w5 = (OK, w6) \<longrightarrow>
      createHeapFile env name sy =
        (OK, sy\<lparr>world := w6,
                hdrs := (hdrs sy)(hp := \<lparr>fileName = c_name (MAXNAMESIZE env) name,
                  firstPage = dno, lastPage = dno, pageCnt = 2, recCnt = 0\<rparr>),
                trace := trace sy @
                  [OpenFile name st0, CreateFile name OK, OpenFile name OK,
                   AllocPage f OK hno hp, AllocPage f OK dno dp, PageCall dp (PInit dno) OK,
                   UnPinPage f hno True OK, UnPinPage f dno True OK]\<rparr>)) \<and>
   (fst (db_openFile env name (world sy)) = OK \<longrightarrow>
      createHeapFile env name sy =
        (FILEEXISTS, sy\<lparr>world := snd (snd (db_openFile env name (world sy))),
                        trace := trace sy @ [OpenFile name OK]\<rparr>))"
  using createHeapFile_success [of env name sy st0 f0 w0 w1 f w2 hno hp w3 dno dp w4 w5 w6]
    createHeapFile_exists [of env name sy]
  by blast

theorem createHeapFile_creates_or_refuses_witness:
  "\<forall>fd. (\<exists>w1 w2 w3 w4 w5 w6.
       db_openFile (ref_env fd) ''t1'' (world (init_sys 2)) =
         (UNIXERR, ''t1'', world (init_sys 2)) \<and>
       UNIXERR \<noteq> OK \<and>
       db_createFile (ref_env fd) ''t1'' (world (init_sys 2)) = (OK, w1) \<and>
       db_openFile (ref_env fd) ''t1'' w1 = (OK, ''t1'', w2) \<and>
       buf_allocPage (ref_env fd) ''t1'' w2 = (OK, 1, (''t1'', 1), w3) \<and>
       buf_allocPage (ref_env fd) ''t1'' w3 = (OK, 2, (''t1'', 2), w4) \<and>
       buf_unPinPage (ref_env fd) ''t1'' 1 True (pg_init (ref_env fd) (''t1'', 2) 2 w4) =
         (OK, w5) \<and>
       buf_unPinPage (ref_env fd) ''t1'' 2 True w5 = (OK, w6) \<and>
       w6 = world sys_created) \<and>
     createHeapFile (ref_env fd) ''t1'' (init_sys 2) = (OK, sys_created) \<and>
     hdrs sys_created (''t1'', 1) =
       \<lparr>fileName = ''t1'', firstPage = 2, lastPage = 2, pageCnt = 2, recCnt = 0\<rparr> \<and>
     rw_files (world sys_created) ''t1'' =
       Some [blank_page, \<lparr>rp_no = 2, rp_next = -1, rp_slots = []\<rparr>] \<and>
     fst (db_openFile (ref_env fd) ''t1'' (world sys_created)) = OK \<and>
     createHeapFile (ref_env fd) ''t1'' sys_created =
       (FILEEXISTS, sys_created\<lparr>trace := trace sys_created @ [OpenFile ''t1'' OK]\<rparr>)"
  (is "\<forall>fd. ?P fd")
proof
  fix fd
  let ?e = "ref_env fd"
  let ?w0 = "world (init_sys 2)"
  define w1 where "w1 = snd (db_createFile ?e ''t1'' ?w0)"
  define w2 where "w2 = snd (snd (db_openFile ?e ''t1'' w1))"
  define w3 where "w3 = snd (snd (snd (buf_allocPage ?e ''t1'' w2)))"
  define w4 where "w4 = snd (snd (snd (buf_allocPage ?e ''t1'' w3)))"
  define w5 where "w5 = snd (buf_unPinPage ?e ''t1'' 1 True (pg_init ?e (''t1'', 2) 2 w4))"
  define w6 where "w6 = snd (buf_unPinPage ?e ''t1'' 2 True w5)"
  note ev = init_sys_def ref_defs
  have e0: "db_openFile ?e ''t1'' ?w0 = (UNIXERR, ''t1'', ?w0)"
    by (simp add: ev)
  have e1: "db_createFile ?e ''t1'' ?w0 = (OK, w1)"
    unfolding w1_def by (simp add: ev)
  have e2: "db_openFile ?e ''t1'' w1 = (OK, ''t1'', w2)"
    unfolding w2_def w1_def by (simp add: ev)
  have e3: "buf_allocPage ?e ''t1'' w2 = (OK, 1, (''t1'', 1), w3)"
    unfolding w3_def w2_def w1_def by (simp add: ev)
  have e4: "buf_allocPage ?e ''t1'' w3 = (OK, 2, (''t1'', 2), w4)"
    unfolding w4_def w3_def w2_def w1_def by (simp add: ev)
  have e5: "buf_unPinPage ?e ''t1'' 1 True (pg_init ?e (''t1'', 2) 2 w4) = (OK, w5)"
    unfolding w5_def w4_def w3_def w2_def w1_def by (simp add: ev)
  have e6: "buf_unPinPage ?e ''t1'' 2 True w5 = (OK, w6)"
    unfolding w6_def w5_def w4_def w3_def w2_def w1_def by (simp add: ev)
  have n: "UNIXERR \<noteq> OK"
    by simp
  have b: "fst (db_openFile ?e ''t1'' (world sys_created)) = OK"
    "snd (snd (db_openFile ?e ''t1'' (world sys_created))) = world sys_created"
    by (simp_all add: sys_created_def ref_env_def ref_openFile_def)
  have h: "hdrs sys_created (''t1'', 1) =
       \<lparr>fileName = ''t1'', firstPage = 2, lastPage = 2, pageCnt = 2, recCnt = 0\<rparr>"
    "rw_files (world sys_created) ''t1'' =
       Some [blank_page, \<lparr>rp_no = 2, rp_next = -1, rp_slots = []\<rparr>]"
    by (simp_all add: sys_created_def)
  from createHeapFile_creates_or_refuses
    [of ?e "''t1''" "init_sys 2" UNIXERR "''t1''" ?w0 w1 "''t1''" w2 1 "(''t1'', 1)" w3 2
       "(''t1'', 2)" w4 w5 w6] e0 n e1 e2 e3 e4 e5 e6
  have r: "createHeapFile ?e ''t1'' (init_sys 2) =
     (OK, (init_sys 2)\<lparr>world := w6,
             hdrs := (hdrs (init_sys 2))((''t1'', 1) := \<lparr>fileName = c_name (MAXNAMESIZE ?e) ''t1'',
               firstPage = 2, lastPage = 2, pageCnt = 2, recCnt = 0\<rparr>),
             trace := trace (init_sys 2) @
               [OpenFile ''t1'' UNIXERR, CreateFile ''t1'' OK, OpenFile ''t1'' OK,
                AllocPage ''t1'' OK 1 (''t1'', 1), AllocPage ''t1'' OK 2 (''t1'', 2),
                PageCall (''t1'', 2) (PInit 2) OK,
                UnPinPage ''t1'' 1 True OK, UnPinPage ''t1'' 2 True OK]\<rparr>)"
    by blast
  have w: "w6 = world sys_created"
    unfolding w6_def w5_def w4_def w3_def w2_def w1_def
    by (simp add: ev sys_created_def)
  have s: "(init_sys 2)\<lparr>world := w6,
             hdrs := (hdrs (init_sys 2))((''t1'', 1) := \<lparr>fileName = c_name (MAXNAMESIZE ?e) ''t1'',
               firstPage = 2, lastPage = 2, pageCnt = 2, recCnt = 0\<rparr>),
             trace := trace (init_sys 2) @
               [OpenFile ''t1'' UNIXERR, CreateFile ''t1'' OK, OpenFile ''t1'' OK,
                AllocPage ''t1'' OK 1 (''t1'', 1), AllocPage ''t1'' OK 2 (''t1'', 2),
                PageCall (''t1'', 2) (PInit 2) OK,
                UnPinPage ''t1'' 1 True OK, UnPinPage ''t1'' 2 True OK]\<rparr> = sys_created"
    unfolding w by (simp add: init_sys_def sys_created_def ref_env_def c_name_def blank_hdr_def)
  from createHeapFile_creates_or_refuses [of ?e "''t1''" sys_created] b
  have x: "createHeapFile ?e ''t1'' sys_created =
       (FILEEXISTS, sys_created\<lparr>trace := trace sys_created @ [OpenFile ''t1'' OK]\<rparr>)"
    by simp
  from r s have c: "createHeapFile ?e ''t1'' (init_sys 2) = (OK, sys_created)"
    by simp
  show "?P fd"
    using e0 n e1 e2 e3 e4 e5 e6 w c h b(1) x by blast
qed


subsection \<open>markScan and resetScan\<close>

lemma scanNext_step:
  "scanNext env (Suc n) this sy out =
     (case scan_step env this sy out of
        Inl r \<Rightarrow> r
      | Inr (t, s) \<Rightarrow> scanNext env n t s out)"
proof (cases "curPage this")
  case None
  then show ?thesis by (simp add: scan_step_def)
next
  case (Some cp)
  obtain st nr sy1 where f:
    "(if pageNo (curRec this) = -1 \<and> slotNo (curRec this) = -1
      then page_firstRecord env cp sy
      else page_nextRecord env cp (curRec this) sy) = (st, nr, sy1)"
    by (metis prod_cases3)
  obtain st2 sy2 where u:
    "unPinPage env (filePtr this) (curPageNo this) (curDirtyFlag this) sy1 = (st2, sy2)"
    by (metis surj_pair)
  obtain st3 np sy3 where g: "page_getNextPage env cp sy2 = (st3, np, sy3)"
    by (metis prod_cases3)
  obtain st4 pg sy4 where r: "readPage env (filePtr this) np sy3 = (st4, pg, sy4)"
    by (metis prod_cases3)
  obtain st5 rc sy5 where gr: "page_getRecord env cp nr sy1 = (st5, rc, sy5)"
    by (metis prod_cases3)
  show ?thesis
    unfolding scanNext.simps(2) scan_step_def Some option.case f u g r gr prod.case
    by simp
qed

lemma ref_unPinPage_call:
  "unPinPage (ref_env fd) f n d sy =
     (if (f, n) \<in> set (rw_pins (world sy))
      then (OK, sy\<lparr>world := (world sy)\<lparr>rw_pins := remove1 (f, n) (rw_pins (world sy))\<rparr>,
                   trace := trace sy @ [UnPinPage f n d OK]\<rparr>)
      else (PAGENOTPINNED, sy\<lparr>trace := trace sy @ [UnPinPage f n d PAGENOTPINNED]\<rparr>))"
  by (simp add: unPinPage_def ref_env_def ref_unPinPage_def emit_def)

lemma ref_readPage_call:
  "readPage (ref_env fd) f n sy =
     (if ref_page (world sy) (f, n) = None
      then (BADPAGENO, (f, n), sy\<lparr>trace := trace sy @ [ReadPage f n BADPAGENO (f, n)]\<rparr>)
      else if pool_full (world sy) (f, n)
      then (BUFFEREXCEEDED, (f, n), sy\<lparr>trace := trace sy @ [ReadPage f n BUFFEREXCEEDED (f, n)]\<rparr>)
      else (OK, (f, n), sy\<lparr>world := (world sy)\<lparr>rw_pins := (f, n) # rw_pins (world sy)\<rparr>,
                   trace := trace sy @ [ReadPage f n OK (f, n)]\<rparr>))"
  by (simp add: readPage_def ref_env_def ref_readPage_def emit_def)

lemma ref_read_calls:
  "page_firstRecord (ref_env fd) p sy =
     (fst (ref_firstRecord p (world sy)), snd (ref_firstRecord p (world sy)),
      sy\<lparr>trace := trace sy @ [PageCall p PFirstRecord (fst (ref_firstRecord p (world sy)))]\<rparr>)"
  "page_nextRecord (ref_env fd) p cur sy =
     (fst (ref_nextRecord p cur (world sy)), snd (ref_nextRecord p cur (world sy)),
      sy\<lparr>trace := trace sy @ [PageCall p (PNextRecord cur) (fst (ref_nextRecord p cur (world sy)))]\<rparr>)"
  "page_getRecord (ref_env fd) p rid sy =
     (fst (ref_getRecord p rid (world sy)), snd (ref_getRecord p rid (world sy)),
      sy\<lparr>trace := trace sy @ [PageCall p (PGetRecord rid) (fst (ref_getRecord p rid (world sy)))]\<rparr>)"
  "page_getNextPage (ref_env fd) p sy =
     (fst (ref_getNextPage p (world sy)), snd (ref_getNextPage p (world sy)),
      sy\<lparr>trace := trace sy @ [PageCall p PGetNextPage (fst (ref_getNextPage p (world sy)))]\<rparr>)"
  by (simp_all add: page_firstRecord_def page_nextRecord_def page_getRecord_def page_getNextPage_def
      ref_env_def emit_def split: prod.splits)

lemma ref_page_files: "rw_files w = rw_files w' \<Longrightarrow> ref_page w p = ref_page w' p"
  by (simp add: ref_page_def)

lemma ref_reads_files:
  assumes "rw_files w = rw_files w'"
  shows "ref_firstRecord p w = ref_firstRecord p w'"
    "ref_nextRecord p cur w = ref_nextRecord p cur w'"
    "ref_getRecord p rid w = ref_getRecord p rid w'"
    "ref_getNextPage p w = ref_getNextPage p w'"
  using ref_page_files [OF assms, of p]
  by (simp_all add: ref_firstRecord_def ref_nextRecord_def ref_getRecord_def ref_getNextPage_def)

lemma matchRec_fields:
  assumes "offset t = offset this" "length_s t = length_s this" "type_s t = type_s this"
   "filter_s t = filter_s this" "op_s t = op_s this"
  shows "matchRec env t rec = matchRec env this rec"
  unfolding matchRec_def assms ..

lemma pool_full_mset:
  assumes a: "mset (rw_pins w) = mset (rw_pins w')" and b: "rw_numBufs w = rw_numBufs w'"
  shows "pool_full w p = pool_full w' p"
proof -
  from a have "set (rw_pins w) = set (rw_pins w')" by (rule mset_eq_setD)
  then show ?thesis using b by (simp add: pool_full_def length_remdups_card_conv)
qed

declare scanNext.simps(2) [simp del]

lemma ref_pins_frame [simp]:
  "ref_page (w\<lparr>rw_pins := ps\<rparr>) p = ref_page w p"
  "ref_firstRecord p (w\<lparr>rw_pins := ps\<rparr>) = ref_firstRecord p w"
  "ref_nextRecord p cur (w\<lparr>rw_pins := ps\<rparr>) = ref_nextRecord p cur w"
  "ref_getRecord p rid (w\<lparr>rw_pins := ps\<rparr>) = ref_getRecord p rid w"
  "ref_getNextPage p (w\<lparr>rw_pins := ps\<rparr>) = ref_getNextPage p w"
  by (simp_all add: ref_page_def ref_firstRecord_def ref_nextRecord_def ref_getRecord_def ref_getNextPage_def)

lemma step_sim:
  assumes sv: "same_view this sy t s"
  shows "rel_sum (\<lambda>r r'. outcome r = outcome r') (\<lambda>(t1, s1) (t2, s2). same_view t1 s1 t2 s2)
           (scan_step (ref_env fd) this sy out) (scan_step (ref_env fd) t s out)"
proof -
  from sv have eqs: "curPage t = curPage this" "curPageNo t = curPageNo this"
    "curRec t = curRec this" "filePtr t = filePtr this"
    and fl: "offset t = offset this" "length_s t = length_s this" "type_s t = type_s this"
      "filter_s t = filter_s this" "op_s t = op_s this"
    and files: "rw_files (world s) = rw_files (world sy)"
    and nb: "rw_numBufs (world s) = rw_numBufs (world sy)"
    and pins: "mset (rw_pins (world s)) = mset (rw_pins (world sy))"
    by (simp_all add: same_view_def)
  note rd = ref_reads_files [OF files] ref_page_files [OF files]
  have mr: "\<And>rec. matchRec (ref_env fd) t rec = matchRec (ref_env fd) this rec"
    by (rule matchRec_fields) (simp_all add: fl)
  have sp: "set (rw_pins (world s)) = set (rw_pins (world sy))"
    using pins by (rule mset_eq_setD)
  have pf: "\<And>x p. pool_full (world s\<lparr>rw_pins := remove1 x (rw_pins (world s))\<rparr>) p =
                  pool_full (world sy\<lparr>rw_pins := remove1 x (rw_pins (world sy))\<rparr>) p"
    by (rule pool_full_mset) (simp_all add: pins nb)
  show ?thesis
  proof (cases "curPage this")
    case None
    then show ?thesis by (simp add: scan_step_def eqs outcome_def)
  next
    case (Some cp)
    show ?thesis
      unfolding scan_step_def eqs Some option.case
      by (simp add: ref_unPinPage_call ref_readPage_call ref_read_calls rd mr sp pf eqs fl
          outcome_def same_view_def files nb pins)
  qed
qed

lemma ref_step_Inr_shape:
  assumes "scan_step (ref_env fd) this sy out = Inr (t, s)" "curPage this = Some (f, n)"
  shows "(\<exists>rid. t = this\<lparr>curRec := rid\<rparr> \<and> world s = world sy) \<or>
         (\<exists>np. (filePtr this, curPageNo this) \<in> set (rw_pins (world sy)) \<and>
               ref_page (world sy) (filePtr this, np) \<noteq> None \<and>
               \<not> pool_full (world sy\<lparr>rw_pins := remove1 (filePtr this, curPageNo this)
                                                  (rw_pins (world sy))\<rparr>) (filePtr this, np) \<and>
               t = this\<lparr>curPage := Some (filePtr this, np), curPageNo := np,
                        curRec := NULLRID, curDirtyFlag := False\<rparr> \<and>
               world s = world sy\<lparr>rw_pins := (filePtr this, np) #
                            remove1 (filePtr this, curPageNo this) (rw_pins (world sy))\<rparr>)"
  using assms(1)
  unfolding scan_step_def assms(2) option.case
  apply (simp add: ref_unPinPage_call ref_readPage_call ref_read_calls split: if_splits)
     apply fastforce
    apply fastforce
   apply fastforce
  apply fastforce
  done


lemma ref_step_OK_shape:
  assumes "scan_step (ref_env fd) this sy out = Inl (Ret (OK, rid, t, s))" "curPage this = Some (f, n)"
  shows "t = this\<lparr>curRec := rid\<rparr> \<and> world s = world sy"
  using assms(1)
  unfolding scan_step_def assms(2) option.case
  apply (simp add: ref_unPinPage_call ref_readPage_call ref_read_calls split: if_splits)
   apply fastforce
  apply fastforce
  done

lemma keeps_refl: "keeps this sy this sy"
  by (simp add: keeps_def)

lemma keeps_trans: "keeps a sa b sb \<Longrightarrow> keeps b sb c sc \<Longrightarrow> keeps a sa c sc"
  unfolding keeps_def by (elim conjE, intro conjI) (erule trans, assumption)+

lemma remdups_remove1_le: "length (remdups (remove1 x xs)) \<le> length (remdups xs)"
  by (simp add: length_remdups_card_conv card_mono set_remove1_subset)

lemma pool_after_read:
  assumes "\<not> pool_full (w\<lparr>rw_pins := ps\<rparr>) p" "length (remdups ps) \<le> rw_numBufs w"
  shows "length (remdups (p # ps)) \<le> rw_numBufs w"
  using assms by (auto simp: pool_full_def)

lemma step_inv_Inr:
  assumes ip: "in_progress this sy" and st: "scan_step (ref_env fd) this sy out = Inr (t, s)"
  shows "in_progress t s \<and> keeps this sy t s"
proof -
  from ip have cp: "curPage this = Some (filePtr this, curPageNo this)"
    and ex: "ref_page (world sy) (filePtr this, curPageNo this) \<noteq> None"
    and pin: "(filePtr this, curPageNo this) \<in> set (rw_pins (world sy))"
    and nb: "length (remdups (rw_pins (world sy))) \<le> rw_numBufs (world sy)"
    by (simp_all add: in_progress_def)
  from ref_step_Inr_shape [OF st cp] show ?thesis
  proof (elim disjE exE conjE)
    fix rid
    assume "t = this\<lparr>curRec := rid\<rparr>" "world s = world sy"
    then show ?thesis
      using ip by (simp add: in_progress_def keeps_def)
  next
    fix np
    let ?ps = "remove1 (filePtr this, curPageNo this) (rw_pins (world sy))"
    assume a: "ref_page (world sy) (filePtr this, np) \<noteq> None"
      and b: "\<not> pool_full (world sy\<lparr>rw_pins := ?ps\<rparr>) (filePtr this, np)"
      and c: "t = this\<lparr>curPage := Some (filePtr this, np), curPageNo := np,
                        curRec := NULLRID, curDirtyFlag := False\<rparr>"
      and d: "world s = world sy\<lparr>rw_pins := (filePtr this, np) # ?ps\<rparr>"
    have "length (remdups ?ps) \<le> rw_numBufs (world sy)"
      using remdups_remove1_le nb by (rule order_trans)
    with b have "length (remdups ((filePtr this, np) # ?ps)) \<le> rw_numBufs (world sy)"
      by (rule pool_after_read)
    then show ?thesis
      using a c d by (simp add: in_progress_def keeps_def)
  qed
qed

lemma step_inv_OK:
  assumes ip: "in_progress this sy"
    and st: "scan_step (ref_env fd) this sy out = Inl (Ret (OK, rid, t, s))"
  shows "in_progress t s \<and> keeps this sy t s"
proof -
  from ip have cp: "curPage this = Some (filePtr this, curPageNo this)"
    by (simp add: in_progress_def)
  from ref_step_OK_shape [OF st cp] ip show ?thesis
    by (simp add: in_progress_def keeps_def)
qed

lemma scanNext_inv:
  "in_progress this sy \<Longrightarrow> scanNext (ref_env fd) k this sy out = Ret (OK, rid, t, s) \<Longrightarrow>
   in_progress t s \<and> keeps this sy t s"
proof (induction k arbitrary: this sy)
  case 0
  then show ?case by simp
next
  case (Suc k)
  show ?case
  proof (cases "scan_step (ref_env fd) this sy out")
    case (Inl r)
    with Suc.prems(2) have "scan_step (ref_env fd) this sy out = Inl (Ret (OK, rid, t, s))"
      by (simp add: scanNext_step)
    with Suc.prems(1) show ?thesis
      by (rule step_inv_OK)
  next
    case (Inr b)
    obtain t1 s1 where b: "b = (t1, s1)"
      by (cases b)
    from Suc.prems(1) Inr b have i1: "in_progress t1 s1 \<and> keeps this sy t1 s1"
      by (simp add: step_inv_Inr)
    from Suc.prems(2) Inr b have "scanNext (ref_env fd) k t1 s1 out = Ret (OK, rid, t, s)"
      by (simp add: scanNext_step)
    with i1 Suc.IH [of t1 s1] have "in_progress t s \<and> keeps t1 s1 t s"
      by simp
    with i1 show ?thesis
      by (blast intro: keeps_trans)
  qed
qed

lemma nexts_inv:
  "in_progress this sy \<Longrightarrow> nexts (ref_env fd) ks this sy = Some (t, s) \<Longrightarrow>
   in_progress t s \<and> keeps this sy t s"
proof (induction ks arbitrary: this sy)
  case Nil
  then show ?case by (simp add: keeps_refl)
next
  case (Cons k ks)
  from Cons.prems(2) obtain rid t1 s1 where
    a: "scanNext (ref_env fd) k this sy NULLRID = Ret (OK, rid, t1, s1)"
    and b: "nexts (ref_env fd) ks t1 s1 = Some (t, s)"
    by (auto split: Run.splits if_splits)
  from scanNext_inv [OF Cons.prems(1) a] have i1: "in_progress t1 s1 \<and> keeps this sy t1 s1" .
  with Cons.IH [of t1 s1] b have "in_progress t s \<and> keeps t1 s1 t s"
    by simp
  with i1 show ?case
    by (blast intro: keeps_trans)
qed

lemma in_pins_mset: "x \<in> set xs \<Longrightarrow> add_mset x (mset xs - {#x#}) = mset xs"
  by simp

lemma reset_restores:
  assumes ip0: "in_progress m sy0"
    and mk: "markedPageNo m = curPageNo m" "markedRec m = curRec m"
    and ip1: "in_progress this1 sy1" and kp: "keeps m sy0 this1 sy1"
  shows "\<exists>this2 sy2. resetScan (ref_env fd) this1 sy1 = (OK, this2, sy2) \<and>
           same_view m sy0 this2 sy2 \<and>
           (markedPageNo this1 = curPageNo this1 \<longrightarrow>
              this2 = this1\<lparr>curRec := markedRec this1\<rparr> \<and> sy2 = sy1)"
proof -
  let ?f = "filePtr m"
  from ip0 have cp0: "curPage m = Some (?f, curPageNo m)"
    and ex0: "ref_page (world sy0) (?f, curPageNo m) \<noteq> None"
    and pin0: "(?f, curPageNo m) \<in> set (rw_pins (world sy0))"
    and nb0: "length (remdups (rw_pins (world sy0))) \<le> rw_numBufs (world sy0)"
    by (simp_all add: in_progress_def)
  from kp have f1: "filePtr this1 = ?f"
    and fl: "offset this1 = offset m" "length_s this1 = length_s m" "type_s this1 = type_s m"
      "filter_s this1 = filter_s m" "op_s this1 = op_s m"
    and mk1: "markedPageNo this1 = curPageNo m" "markedRec this1 = curRec m"
    and files: "rw_files (world sy1) = rw_files (world sy0)"
    and nbe: "rw_numBufs (world sy1) = rw_numBufs (world sy0)"
    by (simp_all add: keeps_def mk)
  from kp have "mset (rw_pins (world sy1)) - {#(filePtr this1, curPageNo this1)#} =
               mset (rw_pins (world sy0)) - {#(?f, curPageNo m)#}"
    unfolding keeps_def by (elim conjE)
  then have base: "mset (rw_pins (world sy1)) - {#(?f, curPageNo this1)#} =
               mset (rw_pins (world sy0)) - {#(?f, curPageNo m)#}"
    unfolding f1 .
  from ip1 f1 have cp1: "curPage this1 = Some (?f, curPageNo this1)"
    and pin1: "(?f, curPageNo this1) \<in> set (rw_pins (world sy1))"
    by (simp_all add: in_progress_def)
  show ?thesis
  proof (cases "markedPageNo this1 = curPageNo this1")
    case True
    with mk1 have same: "curPageNo this1 = curPageNo m" by simp
    have "mset (rw_pins (world sy1)) =
          add_mset (?f, curPageNo this1) (mset (rw_pins (world sy1)) - {#(?f, curPageNo this1)#})"
      by (simp only: in_pins_mset [OF pin1])
    also have "\<dots> = add_mset (?f, curPageNo m) (mset (rw_pins (world sy0)) - {#(?f, curPageNo m)#})"
      using base by (simp only: same)
    also have "\<dots> = mset (rw_pins (world sy0))"
      by (simp only: in_pins_mset [OF pin0])
    finally have ms: "mset (rw_pins (world sy1)) = mset (rw_pins (world sy0))" .
    have r: "resetScan (ref_env fd) this1 sy1 = (OK, this1\<lparr>curRec := markedRec this1\<rparr>, sy1)"
      using True by (simp add: resetScan_def)
    have sv: "same_view m sy0 (this1\<lparr>curRec := markedRec this1\<rparr>) sy1"
      unfolding same_view_def using same cp0 cp1 f1 fl mk1 files nbe ms by simp
    from r sv show ?thesis
      by blast
  next
    case False
    let ?c1 = "(?f, curPageNo this1)" and ?c0 = "(?f, curPageNo m)"
    let ?ps = "remove1 ?c1 (rw_pins (world sy1))"
    have ms: "mset ?ps = mset (rw_pins (world sy0)) - {#?c0#}"
      by (simp only: mset_remove1 base)
    have full: "add_mset ?c0 (mset ?ps) = mset (rw_pins (world sy0))"
      by (simp only: ms in_pins_mset [OF pin0])
    have ex1: "ref_page (world sy1) ?c0 \<noteq> None"
      using ex0 by (simp add: ref_page_files [OF files])
    have nf: "\<not> pool_full (world sy1\<lparr>rw_pins := ?ps\<rparr>) ?c0"
    proof
      assume "pool_full (world sy1\<lparr>rw_pins := ?ps\<rparr>) ?c0"
      then have a: "?c0 \<notin> set ?ps"
        and b: "rw_numBufs (world sy0) \<le> card (set ?ps)"
        by (simp_all add: pool_full_def nbe length_remdups_card_conv)
      have "set (rw_pins (world sy0)) = set_mset (add_mset ?c0 (mset ?ps))"
        by (simp only: full set_mset_mset)
      then have "set (rw_pins (world sy0)) = insert ?c0 (set ?ps)"
        by (simp only: set_mset_add_mset_insert set_mset_mset)
      with a have "card (set (rw_pins (world sy0))) = Suc (card (set ?ps))"
        by simp
      with b nb0 show False
        by (simp add: length_remdups_card_conv)
    qed
    have ms2: "mset (?c0 # ?ps) = mset (rw_pins (world sy0))"
      using full by simp
    let ?sy1' = "sy1\<lparr>world := world sy1\<lparr>rw_pins := ?ps\<rparr>,
                      trace := trace sy1 @ [UnPinPage ?f (curPageNo this1) (curDirtyFlag this1) OK]\<rparr>"
    have u: "unPinPage (ref_env fd) (filePtr this1) (curPageNo this1) (curDirtyFlag this1) sy1 = (OK, ?sy1')"
      using pin1 by (simp add: ref_unPinPage_call f1)
    let ?sy2 = "?sy1'\<lparr>world := world ?sy1'\<lparr>rw_pins := ?c0 # rw_pins (world ?sy1')\<rparr>,
                      trace := trace ?sy1' @ [ReadPage ?f (curPageNo m) OK ?c0]\<rparr>"
    have rp: "readPage (ref_env fd) ?f (curPageNo m) ?sy1' = (OK, ?c0, ?sy2)"
      using ex1 nf by (simp add: ref_readPage_call)
    let ?this2 = "this1\<lparr>curPageNo := markedPageNo this1, curRec := markedRec this1,
                        curPage := Some ?c0, curDirtyFlag := False\<rparr>"
    have r: "resetScan (ref_env fd) this1 sy1 = (OK, ?this2, ?sy2)"
      unfolding resetScan_def using False cp1 u rp
      by (simp add: f1 mk1)
    have sv: "same_view m sy0 ?this2 ?sy2"
      unfolding same_view_def using cp0 f1 fl mk1 files nbe ms2 by simp
    from r sv False show ?thesis
      by blast
  qed
qed


lemma scanNext_sim:
  "same_view this sy t s \<Longrightarrow>
   outcome (scanNext (ref_env fd) k this sy out) = outcome (scanNext (ref_env fd) k t s out)"
proof (induction k arbitrary: this sy t s)
  case 0
  then show ?case by simp
next
  case (Suc k)
  note rel = step_sim [OF Suc.prems, where out = out and fd = fd]
  show ?case
  proof (cases "scan_step (ref_env fd) this sy out")
    case (Inl r)
    with rel obtain r' where "scan_step (ref_env fd) t s out = Inl r'" "outcome r = outcome r'"
      by (cases "scan_step (ref_env fd) t s out") simp_all
    with Inl show ?thesis
      by (simp add: scanNext_step)
  next
    case (Inr a)
    with rel obtain b where b: "scan_step (ref_env fd) t s out = Inr b"
      and ab: "(case a of (t1, s1) \<Rightarrow> \<lambda>(t2, s2). same_view t1 s1 t2 s2) b"
      by (cases "scan_step (ref_env fd) t s out") simp_all
    obtain t1 s1 t2 s2 where pr: "a = (t1, s1)" "b = (t2, s2)"
      by (cases a, cases b) blast
    with ab have "same_view t1 s1 t2 s2"
      by simp
    from Suc.IH [OF this] Inr b pr show ?thesis
      by (simp add: scanNext_step)
  qed
qed

text \<open>
  C8. Take a scan in progress on the reference collaborators, with any filter and any
  comparison \<open>fd\<close> of \<^verbatim>\<open>float\<close> windows. Set the mark, call
  \<open>scanNext\<close> any number of times with each call returning \<open>OK\<close>, and call
  \<open>resetScan\<close>. Then \<open>resetScan\<close> returns \<open>OK\<close>, and from the state it leaves \<open>scanNext\<close>
  gives the caller the same status and the same RID as it gives from the state right after
  the mark (for every amount of fuel, so it also returns in the one case exactly when it
  does in the other). When the marked page is the current page, \<open>resetScan\<close> changes
  nothing but the current RID, so the dirty flag of the page keeps its value.
\<close>

theorem mark_reset_round_trip:
  assumes "in_progress this sy"
    and "nexts (ref_env fd) ks (snd (markScan this)) sy = Some (this1, sy1)"
  shows "\<exists>this2 sy2.
           resetScan (ref_env fd) this1 sy1 = (OK, this2, sy2) \<and>
           (\<forall>k out. outcome (scanNext (ref_env fd) k this2 sy2 out) =
                    outcome (scanNext (ref_env fd) k (snd (markScan this)) sy out)) \<and>
           (markedPageNo this1 = curPageNo this1 \<longrightarrow>
              this2 = this1\<lparr>curRec := markedRec this1\<rparr> \<and> sy2 = sy1)"
proof -
  let ?m = "snd (markScan this)"
  have ip0: "in_progress ?m sy"
    using assms(1) by (simp add: in_progress_def markScan_def)
  have mk: "markedPageNo ?m = curPageNo ?m" "markedRec ?m = curRec ?m"
    by (simp_all add: markScan_def)
  from nexts_inv [OF ip0 assms(2)] have ip1: "in_progress this1 sy1"
    and kp: "keeps ?m sy this1 sy1"
    by simp_all
  from reset_restores [OF ip0 mk ip1 kp] obtain this2 sy2 where
    r: "resetScan (ref_env fd) this1 sy1 = (OK, this2, sy2)"
    and sv: "same_view ?m sy this2 sy2"
    and eq: "markedPageNo this1 = curPageNo this1 \<longrightarrow>
              this2 = this1\<lparr>curRec := markedRec this1\<rparr> \<and> sy2 = sy1"
    by blast
  from scanNext_sim [OF sv] have "\<forall>k out. outcome (scanNext (ref_env fd) k this2 sy2 out) =
                    outcome (scanNext (ref_env fd) k ?m sy out)"
    by simp
  with r eq show ?thesis
    by blast
qed


lemma nexts_t1:
  "\<exists>this1 sy1.
     nexts (ref_env fd) [Suc 0, Suc 0, Suc (Suc 0)] (snd (markScan (scan_t1 2 NULLRID))) (sys_t1 2) =
       Some (this1, sy1) \<and>
     curPageNo this1 = 3 \<and> curRec this1 = \<lparr>pageNo = 3, slotNo = 0\<rparr> \<and>
     markedPageNo this1 = 2 \<and> markedRec this1 = NULLRID"
  by (simp add: scanNext.simps markScan_def scan_t1_def sys_t1_def ref_defs call_defs
      NULLRID_def page2_def page3_def matchRec_def)

lemma next_after_mark_t1:
  "outcome (scanNext (ref_env fd) (Suc 0) (snd (markScan (scan_t1 2 NULLRID))) (sys_t1 2) NULLRID) =
     Ret (OK, \<lparr>pageNo = 2, slotNo = 0\<rparr>)"
  by (simp add: scanNext.simps outcome_def markScan_def scan_t1_def sys_t1_def ref_defs
      call_defs NULLRID_def page2_def page3_def matchRec_def)

theorem mark_reset_round_trip_witness:
  "\<forall>fd. in_progress (scan_t1 2 NULLRID) (sys_t1 2) \<and>
     (\<exists>this1 sy1 this2 sy2.
        nexts (ref_env fd) [Suc 0, Suc 0, Suc (Suc 0)] (snd (markScan (scan_t1 2 NULLRID)))
          (sys_t1 2) = Some (this1, sy1) \<and>
        curPageNo this1 = 3 \<and> curRec this1 = \<lparr>pageNo = 3, slotNo = 0\<rparr> \<and>
        resetScan (ref_env fd) this1 sy1 = (OK, this2, sy2) \<and>
        outcome (scanNext (ref_env fd) (Suc 0) this2 sy2 NULLRID) =
          Ret (OK, \<lparr>pageNo = 2, slotNo = 0\<rparr>))"
  (is "\<forall>fd. ?P fd")
proof
  fix fd
  show "?P fd"
  proof -
    have a: "in_progress (scan_t1 2 NULLRID) (sys_t1 2)"
      by (simp add: in_progress_def scan_t1_def sys_t1_def ref_page_def)
    from nexts_t1 obtain this1 sy1 where
      b: "nexts (ref_env fd) [Suc 0, Suc 0, Suc (Suc 0)] (snd (markScan (scan_t1 2 NULLRID)))
            (sys_t1 2) = Some (this1, sy1)"
      and c: "curPageNo this1 = 3" "curRec this1 = \<lparr>pageNo = 3, slotNo = 0\<rparr>"
      by blast
    from mark_reset_round_trip [OF a b] obtain this2 sy2 where
      d: "resetScan (ref_env fd) this1 sy1 = (OK, this2, sy2)"
      and e: "\<forall>k out. outcome (scanNext (ref_env fd) k this2 sy2 out) =
                outcome (scanNext (ref_env fd) k (snd (markScan (scan_t1 2 NULLRID))) (sys_t1 2) out)"
      by blast
    from e next_after_mark_t1 have
      "outcome (scanNext (ref_env fd) (Suc 0) this2 sy2 NULLRID) = Ret (OK, \<lparr>pageNo = 2, slotNo = 0\<rparr>)"
      by simp
    with a b c d show ?thesis
      by blast
  qed
qed


subsection \<open>The page count and the pages on the chain\<close>

text \<open>
  C2. \<open>createHeapFile\<close> writes \<open>pageCnt = 2\<close>, for the header page and the one data page,
  and \<open>insertRecord\<close> adds one for each page it allocates; it links the new page behind
  its current page, which its comment calls the last page. But the constructor opens an
  \<open>InsertFileScan\<close> on the first data page of the file. Take the run below in a pool of three
  frames: create \<open>t1\<close>, open it, insert three records of four bytes (a page takes two, the
  third goes to the new page 3), close, open again, insert a fourth. The last insert finds
  page 2 full, allocates page 4 and links page 2 to it, so page 3 and its record are off
  the chain. \<open>pageCnt\<close> is then 4, all four pages are still allocated, and the chain from
  \<open>firstPage\<close> holds the data pages 2 and 4; before the file was closed \<open>pageCnt\<close> was 3 with
  the data pages 2 and 3 on the chain, and right after the creation 2 with the data page 2.
  So \<open>pageCnt\<close> is neither the number of data pages on the chain nor that number plus one
  for the header page.
\<close>

theorem insert_after_reopen_unlinks_page:
  "\<forall>fd. \<exists>s0 i1 s1 r1 i2 s2 r2 i3 s3 r3 i4 s4 i5 s5 i6 s6 i7 s7.
     createHeapFile (ref_env fd) ''t1'' (init_sys 3) = (OK, s0) \<and>
     pageCnt (hdrs s0 (''t1'', 1)) = 2 \<and>
     chain (world s0) ''t1'' 4 (firstPage (hdrs s0 (''t1'', 1))) = [2] \<and>
     HeapFile_ctor (ref_env fd) ''t1'' raw_hf s0 = (OK, i1, s1) \<and>
     insertRecord (ref_env fd) i1 s1 (rec4 1) NULLRID = Ret (OK, r1, i2, s2) \<and>
     insertRecord (ref_env fd) i2 s2 (rec4 2) NULLRID = Ret (OK, r2, i3, s3) \<and>
     insertRecord (ref_env fd) i3 s3 (rec4 3) NULLRID = Ret (OK, r3, i4, s4) \<and>
     pageCnt (hdrs s4 (''t1'', 1)) = 3 \<and>
     chain (world s4) ''t1'' 4 (firstPage (hdrs s4 (''t1'', 1))) = [2, 3] \<and>
     InsertFileScan_dtor (ref_env fd) i4 s4 = (i5, s5) \<and>
     HeapFile_ctor (ref_env fd) ''t1'' raw_hf s5 = (OK, i6, s6) \<and>
     curPageNo i6 = 2 \<and> lastPage (hdrs s6 (''t1'', 1)) = 3 \<and>
     insertRecord (ref_env fd) i6 s6 (rec4 4) NULLRID =
       Ret (OK, \<lparr>pageNo = 4, slotNo = 0\<rparr>, i7, s7) \<and>
     pageCnt (hdrs s7 (''t1'', 1)) = 4 \<and>
     recCnt (hdrs s7 (''t1'', 1)) = 4 \<and>
     allocated s7 ''t1'' = Some 4 \<and>
     chain (world s7) ''t1'' 4 (firstPage (hdrs s7 (''t1'', 1))) = [2, 4] \<and>
     ref_page (world s7) (''t1'', 3) =
       Some \<lparr>rp_no = 3, rp_next = -1, rp_slots = [Some (rec4 3)]\<rparr>"
  (is "\<forall>fd. ?P fd")
proof
  fix fd
  let ?e = "ref_env fd"
  note ev = createHeapFile_def HeapFile_ctor_def insertRecord_def InsertFileScan_dtor_def
    HeapFile_dtor_def init_sys_def raw_hf_def rec4_def NULLRID_def u32_def wrap32_id
    ref_defs call_defs hdr_upd_def Let_def c_name_def blank_hdr_def blank_page_def
    allocated_def eval_nat_numeral
  define s0 where "s0 = snd (createHeapFile ?e ''t1'' (init_sys 3))"
  define i1 where "i1 = fst (snd (HeapFile_ctor ?e ''t1'' raw_hf s0))"
  define s1 where "s1 = snd (snd (HeapFile_ctor ?e ''t1'' raw_hf s0))"
  define x2 where "x2 = (case insertRecord ?e i1 s1 (rec4 1) NULLRID of Ret x \<Rightarrow> x)"
  define i2 where "i2 = fst (snd (snd x2))"
  define s2 where "s2 = snd (snd (snd x2))"
  define x3 where "x3 = (case insertRecord ?e i2 s2 (rec4 2) NULLRID of Ret x \<Rightarrow> x)"
  define i3 where "i3 = fst (snd (snd x3))"
  define s3 where "s3 = snd (snd (snd x3))"
  define x4 where "x4 = (case insertRecord ?e i3 s3 (rec4 3) NULLRID of Ret x \<Rightarrow> x)"
  define i4 where "i4 = fst (snd (snd x4))"
  define s4 where "s4 = snd (snd (snd x4))"
  note d4 = s4_def i4_def x4_def s3_def i3_def x3_def s2_def i2_def x2_def s1_def i1_def s0_def
  have c0: "createHeapFile ?e ''t1'' (init_sys 3) = (OK, s0)"
    "pageCnt (hdrs s0 (''t1'', 1)) = 2"
    "chain (world s0) ''t1'' 4 (firstPage (hdrs s0 (''t1'', 1))) = [2]"
    unfolding s0_def by (simp_all add: ev)
  have c1: "HeapFile_ctor ?e ''t1'' raw_hf s0 = (OK, i1, s1)"
    unfolding s1_def i1_def s0_def by (simp add: ev)
  have c2: "insertRecord ?e i1 s1 (rec4 1) NULLRID = Ret (OK, fst (snd x2), i2, s2)"
    unfolding s2_def i2_def x2_def s1_def i1_def s0_def by (simp add: ev)
  have c3: "insertRecord ?e i2 s2 (rec4 2) NULLRID = Ret (OK, fst (snd x3), i3, s3)"
    unfolding s3_def i3_def x3_def s2_def i2_def x2_def s1_def i1_def s0_def by (simp add: ev)
  have c4: "insertRecord ?e i3 s3 (rec4 3) NULLRID = Ret (OK, fst (snd x4), i4, s4)"
    unfolding d4 by (simp add: ev)
  have f4: "world s4 =
      \<lparr>rw_files = (\<lambda>name. None)(''t1'' := Some [blank_page,
           \<lparr>rp_no = 2, rp_next = 3, rp_slots = [Some (rec4 1), Some (rec4 2)]\<rparr>,
           \<lparr>rp_no = 3, rp_next = -1, rp_slots = [Some (rec4 3)]\<rparr>]),
       rw_pins = [(''t1'', 3), (''t1'', 1)], rw_numBufs = 3\<rparr>"
    "hdrs s4 (''t1'', 1) =
       \<lparr>fileName = ''t1'', firstPage = 2, lastPage = 3, pageCnt = 3, recCnt = 3\<rparr>"
    "i4 = \<lparr>filePtr = ''t1'', headerPage = (''t1'', 1), headerPageNo = 1, hdrDirtyFlag = True,
           curPage = Some (''t1'', 3), curPageNo = 3, curDirtyFlag = True, curRec = NULLRID\<rparr>"
    unfolding d4 by (simp_all add: ev)
  have g4: "pageCnt (hdrs s4 (''t1'', 1)) = 3"
    "chain (world s4) ''t1'' 4 (firstPage (hdrs s4 (''t1'', 1))) = [2, 3]"
    unfolding f4 by (simp_all add: ev)
  define i5 where "i5 = fst (InsertFileScan_dtor ?e i4 s4)"
  define s5 where "s5 = snd (InsertFileScan_dtor ?e i4 s4)"
  define i6 where "i6 = fst (snd (HeapFile_ctor ?e ''t1'' raw_hf s5))"
  define s6 where "s6 = snd (snd (HeapFile_ctor ?e ''t1'' raw_hf s5))"
  define x7 where "x7 = (case insertRecord ?e i6 s6 (rec4 4) NULLRID of Ret x \<Rightarrow> x)"
  define i7 where "i7 = fst (snd (snd x7))"
  define s7 where "s7 = snd (snd (snd x7))"
  note d7 = s7_def i7_def x7_def s6_def i6_def s5_def i5_def
  have c5: "InsertFileScan_dtor ?e i4 s4 = (i5, s5)"
    by (simp add: i5_def s5_def)
  have c6: "HeapFile_ctor ?e ''t1'' raw_hf s5 = (OK, i6, s6)"
    "curPageNo i6 = 2" "lastPage (hdrs s6 (''t1'', 1)) = 3"
    unfolding s6_def i6_def s5_def i5_def by (simp_all add: ev f4)
  have c7: "insertRecord ?e i6 s6 (rec4 4) NULLRID = Ret (OK, \<lparr>pageNo = 4, slotNo = 0\<rparr>, i7, s7)"
    "pageCnt (hdrs s7 (''t1'', 1)) = 4"
    "recCnt (hdrs s7 (''t1'', 1)) = 4"
    "allocated s7 ''t1'' = Some 4"
    "chain (world s7) ''t1'' 4 (firstPage (hdrs s7 (''t1'', 1))) = [2, 4]"
    "ref_page (world s7) (''t1'', 3) =
       Some \<lparr>rp_no = 3, rp_next = -1, rp_slots = [Some (rec4 3)]\<rparr>"
    unfolding d7 by (simp_all add: ev f4)
  show "?P fd"
    using c0 c1 c2 c3 c4 g4 c5 c6 c7 by blast
qed

end
